theory Spec2Isabelle
  imports Main "HOL-Library.AList" "HOL-Library.Code_Target_Nat"
begin

section \<open>The refocus module of packages/core: a shallow embedding\<close>

text \<open>
  The development follows \<^verbatim>\<open>packages/core/src/refocus/index.ts\<close> function by function.
  Modelling conventions:
  \<^item> A JavaScript string is the list of its UTF-16 code units (\<open>jstring\<close>), so that
    \<^verbatim>\<open>length\<close>, \<^verbatim>\<open>slice\<close>, \<^verbatim>\<open>trim\<close>, \<^verbatim>\<open>split\<close> and the regular expressions of the module
    (none has the \<^verbatim>\<open>u\<close> flag) work on the units the engine works on.
  \<^item> \<^verbatim>\<open>JSON.parse\<close> and \<^verbatim>\<open>JSON.stringify\<close> belong to the language runtime, not to the
    module. They are parameters of the model (the record \<open>JSON\<close>), so every theorem holds
    for any behaviour of the two.
  \<^item> The file system is a parameter: a \<open>disk\<close> answers \<^verbatim>\<open>fs.readFileSync(p, 'utf8')\<close> with
    the content, or with \<open>None\<close> where the call throws.
  \<^item> An uncaught JavaScript exception is a value \<open>Inl e\<close> of the result. The value
    \<open>Inl Unmodelled\<close> marks the few places where the embedding does not follow the engine
    (arithmetic on a value that is not a number, a number that is not a small integer used
    as a property key, the key \<^verbatim>\<open>__proto__\<close>); nothing is stated about the code there,
    and a theorem that says the code returns excludes these places by its hypotheses.
  \<^item> \<^verbatim>\<open>logPromptAnalysis\<close> only appends to a log file inside a \<^verbatim>\<open>try\<close> block and has no
    influence on any returned value; it is left out.
\<close>

subsection \<open>Strings\<close>

text \<open>A UTF-16 code unit is a number below 65536.\<close>
type_synonym jstring = "nat list"

text \<open>The string a literal of ASCII characters denotes.\<close>
definition lit :: "string \<Rightarrow> jstring" where
  "lit s = map of_char s"

text \<open>
  The code units \<^verbatim>\<open>String.prototype.trim\<close> strips: the white space and the line
  terminators of ECMAScript (TAB, LF, VT, FF, CR, SP, NBSP, U+1680, U+2000 to U+200A,
  U+2028, U+2029, U+202F, U+205F, U+3000 and U+FEFF).
\<close>
definition isWhiteSpace :: "nat \<Rightarrow> bool" where
  "isWhiteSpace c =
    (c \<in> set [0x09, 0x0A, 0x0B, 0x0C, 0x0D, 0x20, 0xA0, 0x1680, 0x2028, 0x2029, 0x202F,
               0x205F, 0x3000, 0xFEFF]
     \<or> (0x2000 \<le> c \<and> c \<le> 0x200A))"

text \<open>\<^verbatim>\<open>s.trim()\<close>\<close>
definition trim :: "jstring \<Rightarrow> jstring" where
  "trim s = rev (dropWhile isWhiteSpace (rev (dropWhile isWhiteSpace s)))"

text \<open>\<^verbatim>\<open>s.split('\n')\<close>: never empty, the empty string gives one empty piece.\<close>
fun split_nl :: "jstring \<Rightarrow> jstring list" where
  "split_nl [] = [[]]"
| "split_nl (c # cs) =
     (if c = 0x0A then [] # split_nl cs
      else (case split_nl cs of [] \<Rightarrow> [[c]] | l # ls \<Rightarrow> (c # l) # ls))"

text \<open>\<^verbatim>\<open>xs.join(sep)\<close>\<close>
fun join_with :: "jstring \<Rightarrow> jstring list \<Rightarrow> jstring" where
  "join_with sep [] = []"
| "join_with sep [x] = x"
| "join_with sep (x # y # ys) = x @ sep @ join_with sep (y # ys)"

text \<open>The class \<^verbatim>\<open>\d\<close>: the digits 0 to 9.\<close>
definition isDigit :: "nat \<Rightarrow> bool" where
  "isDigit c = (0x30 \<le> c \<and> c \<le> 0x39)"

definition digitChar :: "nat \<Rightarrow> nat" where
  "digitChar d = 0x30 + d"

text \<open>Decimal rendering of a number inside a template literal.\<close>
fun showNat :: "nat \<Rightarrow> jstring" where
  "showNat n = (if n < 10 then [digitChar n] else showNat (n div 10) @ [digitChar (n mod 10)])"

declare showNat.simps [simp del]

definition showInt :: "int \<Rightarrow> jstring" where
  "showInt i = (if i < 0 then lit ''-'' @ showNat (nat (- i)) else showNat (nat i))"

subsection \<open>JSON values and the runtime's JSON object\<close>

text \<open>
  The values \<^verbatim>\<open>JSON.parse\<close> can return. \<open>JNum n\<close> is a number that is an integer; every
  other number (a fraction, an overflow to infinity) is a \<open>JFloat\<close> of a mantissa and an
  exponent, is never zero, and is not computed with. An object is the list of its own
  properties in enumeration order.
\<close>

datatype json =
    JNull
  | JBool bool
  | JNum int
  | JFloat int int
  | JStr jstring
  | JArr "json list"
  | JObj "(jstring \<times> json) list"

text \<open>
  \<open>parse s = None\<close> stands for the \<^verbatim>\<open>SyntaxError\<close> of \<^verbatim>\<open>JSON.parse(s)\<close>;
  \<open>stringify\<close> is \<^verbatim>\<open>JSON.stringify(v)\<close> and \<open>stringify2\<close> is \<^verbatim>\<open>JSON.stringify(v, null, 2)\<close>.
\<close>

record JSON =
  parse :: "jstring \<Rightarrow> json option"
  stringify :: "json \<Rightarrow> jstring"
  stringify2 :: "json \<Rightarrow> jstring"

datatype error = TypeError | SyntaxError | Unmodelled

text \<open>Truthiness of a value read from a parsed object; \<open>None\<close> is \<^verbatim>\<open>undefined\<close>.\<close>
fun truthy :: "json option \<Rightarrow> bool" where
  "truthy None = False"
| "truthy (Some JNull) = False"
| "truthy (Some (JBool b)) = b"
| "truthy (Some (JNum n)) = (n \<noteq> 0)"
| "truthy (Some (JFloat m e)) = True"
| "truthy (Some (JStr s)) = (s \<noteq> [])"
| "truthy (Some (JArr xs)) = True"
| "truthy (Some (JObj kvs)) = True"

text \<open>
  \<^verbatim>\<open>v.k\<close> for a value that is not \<^verbatim>\<open>null\<close>: an own property of an object, \<^verbatim>\<open>undefined\<close>
  otherwise (none of the names the module reads is a property of a prototype).
  Reading a property of \<^verbatim>\<open>null\<close> throws; the callers test for \<open>JNull\<close> first.
\<close>
fun getProp :: "json \<Rightarrow> jstring \<Rightarrow> json option" where
  "getProp (JObj kvs) k = map_of kvs k"
| "getProp _ k = None"

fun isString :: "json option \<Rightarrow> bool" where
  "isString (Some (JStr s)) = True"
| "isString _ = False"

text \<open>\<^verbatim>\<open>s || d\<close> on strings.\<close>
definition orDefault :: "jstring \<Rightarrow> jstring \<Rightarrow> jstring" where
  "orDefault s d = (if s = [] then d else s)"

subsection \<open>Tool calls and file operations\<close>

text \<open>
  \<^verbatim>\<open>ChatCompletionMessageToolCall\<close>. \<open>tc_id = None\<close> is a missing \<^verbatim>\<open>id\<close>. A missing
  \<^verbatim>\<open>function.name\<close> or \<^verbatim>\<open>function.arguments\<close> is the empty string: the module reads both
  only through \<^verbatim>\<open>!name\<close>, \<^verbatim>\<open>name || d\<close> and \<^verbatim>\<open>arguments || d\<close>.
\<close>

record ToolCall =
  tc_id :: "jstring option"
  fn_name :: jstring
  fn_arguments :: jstring

text \<open>\<^verbatim>\<open>toolCall.id || ''\<close>\<close>
definition idOrEmpty :: "ToolCall \<Rightarrow> jstring" where
  "idOrEmpty tc = (case tc_id tc of None \<Rightarrow> [] | Some s \<Rightarrow> s)"

datatype OpType = Read | Write | Edit

text \<open>
  The interface \<^verbatim>\<open>FileOperation\<close>. At run time \<^verbatim>\<open>filepath\<close> holds whatever JSON value the
  arguments carried (\<^verbatim>\<open>absolute_paths[0]\<close> is not checked to be a string), so it is a
  \<^typ>\<open>json\<close> here. The interface has no range: a read's range is taken from the arguments
  again when the virtual file system is built.
\<close>

record FileOperation =
  op_type :: OpType
  filepath :: json
  op_content :: "json option"
  op_toolCallId :: jstring

definition extractFileOperationFromToolCall ::
  "JSON \<Rightarrow> ToolCall \<Rightarrow> jstring \<Rightarrow> error + FileOperation option" where
  "extractFileOperationFromToolCall J toolCall result =
    (let functionName = fn_name toolCall in
     if functionName = [] \<or> idOrEmpty toolCall = [] then Inr None
     else
       (case parse J (orDefault (fn_arguments toolCall) (lit ''{}'')) of
          None \<Rightarrow> Inr None
        | Some args \<Rightarrow>
            if functionName = lit ''read_file'' \<or> functionName = lit ''read_many_files'' then
              (if args = JNull then Inl TypeError
               else if truthy (getProp args (lit ''absolute_path'')) \<and> isString (getProp args (lit ''absolute_path''))
               then
                 (case getProp args (lit ''absolute_path'') of
                    Some p \<Rightarrow> Inr (Some \<lparr>op_type = Read, filepath = p,
                                 op_content = Some (JStr result), op_toolCallId = idOrEmpty toolCall\<rparr>)
                  | None \<Rightarrow> Inr None)
               else
                 (case getProp args (lit ''absolute_paths'') of
                    Some (JArr (p # ps)) \<Rightarrow> Inr (Some \<lparr>op_type = Read, filepath = p,
                                 op_content = Some (JStr result), op_toolCallId = idOrEmpty toolCall\<rparr>)
                  | _ \<Rightarrow> Inr None))
            else if functionName = lit ''write_file'' then
              (if args = JNull then Inl TypeError
               else if truthy (getProp args (lit ''file_path'')) \<and> truthy (getProp args (lit ''content''))
                       \<and> isString (getProp args (lit ''file_path''))
               then
                 (case getProp args (lit ''file_path'') of
                    Some p \<Rightarrow> Inr (Some \<lparr>op_type = Write, filepath = p,
                                 op_content = getProp args (lit ''content''), op_toolCallId = idOrEmpty toolCall\<rparr>)
                  | None \<Rightarrow> Inr None)
               else Inr None)
            else if functionName = lit ''replace'' then
              (if args = JNull then Inl TypeError
               else if truthy (getProp args (lit ''file_path'')) \<and> isString (getProp args (lit ''file_path''))
               then
                 (case getProp args (lit ''file_path'') of
                    Some p \<Rightarrow> Inr (Some \<lparr>op_type = Edit, filepath = p,
                                 op_content = None, op_toolCallId = idOrEmpty toolCall\<rparr>)
                  | None \<Rightarrow> Inr None)
               else Inr None)
            else Inr None))"

subsection \<open>Reading a range of a file\<close>

type_synonym disk = "json \<Rightarrow> jstring option"

text \<open>The object \<^verbatim>\<open>{ [lineNumber]: text }\<close>, as the list of its entries.\<close>
type_synonym LineMap = "(nat \<times> jstring) list"

text \<open>
  The number \<^verbatim>\<open>Math.max\<close>, \<^verbatim>\<open>Math.min\<close> and \<^verbatim>\<open>+\<close> compute with for an argument. Strings,
  arrays and objects are coerced by the engine in ways the embedding does not follow (and
  \<^verbatim>\<open>+\<close> concatenates for them), a \<open>JFloat\<close> is not computed with: \<open>None\<close>.
\<close>
fun toNumber :: "json \<Rightarrow> int option" where
  "toNumber (JNum n) = Some n"
| "toNumber (JBool b) = Some (if b then 1 else 0)"
| "toNumber JNull = Some 0"
| "toNumber _ = None"

text \<open>
  \<^verbatim>\<open>readFileRange(filepath, offset?, limit?)\<close>. The whole body is inside \<^verbatim>\<open>try\<close>: where
  \<^verbatim>\<open>readFileSync\<close> throws the result is the empty map, whatever the other arguments are.
  An \<^verbatim>\<open>offset\<close> or \<^verbatim>\<open>limit\<close> that is truthy and has no number in the sense of \<open>toNumber\<close>
  is outside the embedding.
\<close>
definition readFileRange ::
  "disk \<Rightarrow> json \<Rightarrow> json option \<Rightarrow> json option \<Rightarrow> error + LineMap" where
  "readFileRange dsk path offset limit =
    (case dsk path of
       None \<Rightarrow> Inr []
     | Some content \<Rightarrow>
         (let lines = split_nl content;
              startLine = (case offset of
                             Some v \<Rightarrow> (if truthy offset then map_option (max 0) (toNumber v) else Some 0)
                           | None \<Rightarrow> Some 0);
              endLine = (case limit of
                           Some v \<Rightarrow>
                             (if truthy limit then
                                (case (startLine, toNumber v) of
                                   (Some s, Some l) \<Rightarrow> Some (min (int (length lines)) (s + l))
                                 | _ \<Rightarrow> None)
                              else Some (int (length lines)))
                         | None \<Rightarrow> Some (int (length lines)))
          in case (startLine, endLine) of
               (Some s, Some e) \<Rightarrow> Inr (map (\<lambda>i. (i + 1, lines ! i)) [nat s ..< nat e])
             | _ \<Rightarrow> Inl Unmodelled))"

subsection \<open>The virtual file system\<close>

text \<open>
  The object \<^verbatim>\<open>VirtualFileSystem\<close> as the list of its own properties in the order of their
  creation. \<open>objectEntries\<close> below gives the order in which the engine enumerates them.
\<close>
type_synonym VirtualFileSystem = "(jstring \<times> LineMap) list"

type_synonym ToolCallPair = "ToolCall \<times> jstring"

text \<open>
  The property key a value becomes in \<^verbatim>\<open>vfs[operation.filepath]\<close> (\<^verbatim>\<open>ToPropertyKey\<close>), and
  the strings \<^verbatim>\<open>Array.prototype.join\<close> makes of the elements of an array on the way. An
  object is converted by \<^verbatim>\<open>Object.prototype.toString\<close>, unless it has an own property
  \<^verbatim>\<open>toString\<close>: a decoded JSON value is never callable, \<^verbatim>\<open>valueOf\<close> returns the object
  itself, and the conversion throws a \<^verbatim>\<open>TypeError\<close>. An integer of absolute value up to
  \<open>2\<^sup>5\<^sup>3\<close> is its decimal numeral; the text of other numbers is outside the embedding.
\<close>
fun toPropertyKey :: "json \<Rightarrow> error + jstring"
and elementStrings :: "json list \<Rightarrow> error + jstring list" where
  "toPropertyKey JNull = Inr (lit ''null'')"
| "toPropertyKey (JBool b) = Inr (if b then lit ''true'' else lit ''false'')"
| "toPropertyKey (JNum n) = (if \<bar>n\<bar> \<le> 9007199254740992 then Inr (showInt n) else Inl Unmodelled)"
| "toPropertyKey (JFloat m e) = Inl Unmodelled"
| "toPropertyKey (JStr s) = Inr s"
| "toPropertyKey (JArr xs) =
     (case elementStrings xs of
        Inl e \<Rightarrow> Inl e
      | Inr pieces \<Rightarrow> Inr (join_with (lit '','') pieces))"
| "toPropertyKey (JObj kvs) =
     (if map_of kvs (lit ''toString'') \<noteq> None then Inl TypeError else Inr (lit ''[object Object]''))"
| "elementStrings [] = Inr []"
| "elementStrings (x # xs) =
     (case (if x = JNull then Inr [] else toPropertyKey x) of
        Inl e \<Rightarrow> Inl e
      | Inr piece \<Rightarrow>
          (case elementStrings xs of
             Inl e \<Rightarrow> Inl e
           | Inr pieces \<Rightarrow> Inr (piece # pieces)))"

text \<open>
  \<^verbatim>\<open>vfs\<close> is created by \<^verbatim>\<open>{}\<close>, so \<^verbatim>\<open>vfs[k]\<close> also finds the properties of
  \<^verbatim>\<open>Object.prototype\<close>. For the name of one of its methods \<^verbatim>\<open>!vfs[k]\<close> is false although the
  object has no own property \<^verbatim>\<open>k\<close>, and \<^verbatim>\<open>Object.assign\<close> then writes to the inherited
  function, not to \<^verbatim>\<open>vfs\<close>. The key \<^verbatim>\<open>__proto__\<close> reads and replaces the prototype itself,
  which changes later lookups: it is outside the embedding.
\<close>
definition objectPrototypeMethods :: "jstring list" where
  "objectPrototypeMethods =
    [lit ''constructor'', lit ''__defineGetter__'', lit ''__defineSetter__'', lit ''hasOwnProperty'',
     lit ''__lookupGetter__'', lit ''__lookupSetter__'', lit ''isPrototypeOf'', lit ''propertyIsEnumerable'',
     lit ''toString'', lit ''valueOf'', lit ''toLocaleString'']"

text \<open>\<^verbatim>\<open>Object.assign(target, source)\<close> on line maps.\<close>
definition objectAssign :: "LineMap \<Rightarrow> LineMap \<Rightarrow> LineMap" where
  "objectAssign target source = fold (\<lambda>kv m. AList.update (fst kv) (snd kv) m) source target"

text \<open>
  The body of the loop of \<^verbatim>\<open>buildVirtualFileSystem\<close> for one pair. The set
  \<^verbatim>\<open>trackedFiles\<close> is written and never read.
\<close>
definition trackPair :: "JSON \<Rightarrow> disk \<Rightarrow> ToolCallPair \<Rightarrow> VirtualFileSystem \<Rightarrow> error + VirtualFileSystem" where
  "trackPair J dsk pair vfs =
    (case extractFileOperationFromToolCall J (fst pair) (snd pair) of
       Inl e \<Rightarrow> Inl e
     | Inr None \<Rightarrow> Inr vfs
     | Inr (Some operation) \<Rightarrow>
         if \<not> truthy (Some (filepath operation)) then Inr vfs
         else if op_type operation = Read then
           (case parse J (orDefault (fn_arguments (fst pair)) (lit ''{}'')) of
              None \<Rightarrow> Inl SyntaxError
            | Some args \<Rightarrow>
                if args = JNull then Inl TypeError
                else
                  (let offset = (if truthy (getProp args (lit ''offset'')) then getProp args (lit ''offset'')
                                 else Some (JNum 0));
                       limit = getProp args (lit ''limit'')
                   in case readFileRange dsk (filepath operation) offset limit of
                        Inl e \<Rightarrow> Inl e
                      | Inr fileLines \<Rightarrow>
                          (case toPropertyKey (filepath operation) of
                             Inl e \<Rightarrow> Inl e
                           | Inr key \<Rightarrow>
                               if key = lit ''__proto__'' then Inl Unmodelled
                               else
                                 (case map_of vfs key of
                                    None \<Rightarrow>
                                      if key \<in> set objectPrototypeMethods then Inr vfs
                                      else Inr (AList.update key (objectAssign [] fileLines) vfs)
                                  | Some tracked \<Rightarrow>
                                      Inr (AList.update key (objectAssign tracked fileLines) vfs)))))
         else
           (case readFileRange dsk (filepath operation) None None of
              Inl e \<Rightarrow> Inl e
            | Inr fileLines \<Rightarrow>
                (case toPropertyKey (filepath operation) of
                   Inl e \<Rightarrow> Inl e
                 | Inr key \<Rightarrow>
                     if key = lit ''__proto__'' then Inl Unmodelled
                     else Inr (AList.update key fileLines vfs))))"

fun buildVirtualFileSystemFrom ::
  "JSON \<Rightarrow> disk \<Rightarrow> ToolCallPair list \<Rightarrow> VirtualFileSystem \<Rightarrow> error + VirtualFileSystem" where
  "buildVirtualFileSystemFrom J dsk [] vfs = Inr vfs"
| "buildVirtualFileSystemFrom J dsk (pair # pairs) vfs =
     (case trackPair J dsk pair vfs of
        Inl e \<Rightarrow> Inl e
      | Inr vfs' \<Rightarrow> buildVirtualFileSystemFrom J dsk pairs vfs')"

definition buildVirtualFileSystem :: "JSON \<Rightarrow> disk \<Rightarrow> ToolCallPair list \<Rightarrow> error + VirtualFileSystem" where
  "buildVirtualFileSystem J dsk toolCallPairs = buildVirtualFileSystemFrom J dsk toolCallPairs []"

subsection \<open>Rendering the virtual file system\<close>

record LineRange =
  r_start :: nat
  r_end :: nat
  r_content :: "jstring list"

text \<open>\<^verbatim>\<open>lines[lineNum]\<close>; a missing entry is joined as the empty string.\<close>
definition lineAt :: "LineMap \<Rightarrow> nat \<Rightarrow> jstring" where
  "lineAt lines n = (case map_of lines n of None \<Rightarrow> [] | Some s \<Rightarrow> s)"

text \<open>The loop of \<^verbatim>\<open>groupLinesIntoRanges\<close>: previous line number, open range, numbers left.\<close>
fun groupFrom :: "LineMap \<Rightarrow> nat \<Rightarrow> LineRange \<Rightarrow> nat list \<Rightarrow> LineRange list" where
  "groupFrom lines prevLineNum currentRange [] = [currentRange]"
| "groupFrom lines prevLineNum currentRange (lineNum # rest) =
     (if lineNum = prevLineNum + 1
      then groupFrom lines lineNum
             (currentRange\<lparr>r_end := lineNum, r_content := r_content currentRange @ [lineAt lines lineNum]\<rparr>)
             rest
      else currentRange
           # groupFrom lines lineNum \<lparr>r_start = lineNum, r_end = lineNum, r_content = [lineAt lines lineNum]\<rparr> rest)"

definition groupLinesIntoRanges :: "LineMap \<Rightarrow> LineRange list" where
  "groupLinesIntoRanges lines =
    (case sort (map fst lines) of
       [] \<Rightarrow> []
     | first # rest \<Rightarrow>
         groupFrom lines first \<lparr>r_start = first, r_end = first, r_content = [lineAt lines first]\<rparr> rest)"

text \<open>
  The decorations of the headings, as the code units the source file holds for them.
\<close>
definition ruleGlyphs :: jstring where
  "ruleGlyphs = [0x201A, 0xEF, 0xEA, 0x201A, 0xEF, 0xEA, 0x201A, 0xEF, 0xEA]"

definition folderGlyph :: jstring where
  "folderGlyph = [0xF8FF, 0xFC, 0xEC, 0xC5]"

definition globeGlyph :: jstring where
  "globeGlyph = [0xF8FF, 0xFC, 0xE5, 0xE7]"

definition wrenchGlyph :: jstring where
  "wrenchGlyph = [0xF8FF, 0xFC, 0xEE, 0xDF]"

definition arrowGlyph :: jstring where
  "arrowGlyph = [0x201A, 0xDC, 0xED]"

text \<open>
  \<^verbatim>\<open>Object.entries(obj)\<close>: the engine lists the properties whose key is an array index
  (the canonical numeral of an integer below \<open>2\<^sup>3\<^sup>2 - 1\<close>) first, in ascending order, and
  the others after them in the order of their creation.
\<close>
definition digitsValue :: "jstring \<Rightarrow> nat" where
  "digitsValue k = fold (\<lambda>c n. 10 * n + (c - 0x30)) k 0"

definition arrayIndex :: "jstring \<Rightarrow> nat option" where
  "arrayIndex k =
    (if k \<noteq> [] \<and> list_all isDigit k \<and> (length k = 1 \<or> hd k \<noteq> 0x30) \<and> digitsValue k < 4294967295
     then Some (digitsValue k) else None)"

definition indexOrder :: "jstring \<times> 'a \<Rightarrow> nat" where
  "indexOrder entry = (case arrayIndex (fst entry) of Some n \<Rightarrow> n | None \<Rightarrow> 0)"

definition objectEntries :: "(jstring \<times> 'a) list \<Rightarrow> (jstring \<times> 'a) list" where
  "objectEntries obj =
    sort_key indexOrder (filter (\<lambda>entry. arrayIndex (fst entry) \<noteq> None) obj)
    @ filter (\<lambda>entry. arrayIndex (fst entry) = None) obj"

definition rangeText :: "LineRange \<Rightarrow> jstring" where
  "rangeText rng =
    (if r_start rng = r_end rng
     then lit ''**Line '' @ showNat (r_start rng) @ lit '':**\<newline>''
     else lit ''**Lines '' @ showNat (r_start rng) @ lit ''-'' @ showNat (r_end rng) @ lit '':**\<newline>'')
    @ lit ''```\<newline>'' @ join_with (lit ''\<newline>'') (r_content rng) @ lit ''\<newline>```\<newline>\<newline>''"

text \<open>
  The text one iteration of the loop of \<^verbatim>\<open>generateVirtualFileSystemContext\<close> appends for the
  entry at index \<open>i\<close> of \<open>n\<close>: the heading, then the placeholder (and \<^verbatim>\<open>continue\<close>, which
  also skips the divider) or the ranges and the divider.
\<close>
definition fileSection :: "nat \<Rightarrow> nat \<Rightarrow> jstring \<times> LineMap \<Rightarrow> jstring" where
  "fileSection i n entry =
    lit ''## '' @ fst entry @ lit ''\<newline>''
    @ (if length (snd entry) = 0 then lit ''*File was modified but content not tracked*\<newline>\<newline>''
       else concat (map rangeText (groupLinesIntoRanges (snd entry)))
            @ (if int i < int n - 1 then lit ''--- END OF FILE ---\<newline>\<newline>'' else []))"

definition generateVirtualFileSystemContext :: "VirtualFileSystem \<Rightarrow> jstring" where
  "generateVirtualFileSystemContext vfs =
    (if length vfs = 0 then []
     else
       (let fileEntries = objectEntries vfs in
        lit ''\<newline>\<newline>'' @ ruleGlyphs @ lit '' '' @ folderGlyph @ lit '' CURRENT FILE STATES '' @ ruleGlyphs
        @ lit ''\<newline>\<newline>''
        @ lit ''The following files have been read or modified during this conversation:\<newline>\<newline>''
        @ concat (map (\<lambda>i. fileSection i (length fileEntries) (fileEntries ! i))
                      [0 ..< length fileEntries])))"

subsection \<open>The system prompt\<close>

text \<open>
  The environment the defaults of \<^verbatim>\<open>extractContextInfo\<close> come from:
  \<^verbatim>\<open>new Date().toDateString()\<close> and \<^verbatim>\<open>process.cwd()\<close>.
\<close>
record Env =
  today :: jstring
  workdir :: jstring

text \<open>
  \<^verbatim>\<open>s.match(/pre([^...]+)/)\<close> for a literal \<open>pre\<close> followed by a greedy, non-empty run of
  admitted characters: the first capture group of the leftmost match.
\<close>
fun matchAfter :: "jstring \<Rightarrow> (nat \<Rightarrow> bool) \<Rightarrow> jstring \<Rightarrow> jstring option" where
  "matchAfter pre ok [] = None"
| "matchAfter pre ok (c # cs) =
     (if take (length pre) (c # cs) = pre \<and> takeWhile ok (drop (length pre) (c # cs)) \<noteq> []
      then Some (takeWhile ok (drop (length pre) (c # cs)))
      else matchAfter pre ok cs)"

record ContextInfo =
  ci_date :: jstring
  ci_os :: jstring
  ci_cwd :: jstring

definition extractContextInfo :: "Env \<Rightarrow> jstring \<Rightarrow> ContextInfo" where
  "extractContextInfo env cannedUserContext =
    (let defaultContext = \<lparr>ci_date = today env, ci_os = lit ''unknown'', ci_cwd = workdir env\<rparr> in
     if cannedUserContext = [] then defaultContext
     else
       \<lparr>ci_date = (case matchAfter (lit ''Today'' @ [0x27] @ lit ''s date is '')
                           (\<lambda>c. c \<noteq> 0x2E \<and> c \<noteq> 0x0A) cannedUserContext of
                      Some m \<Rightarrow> trim m | None \<Rightarrow> ci_date defaultContext),
        ci_os = (case matchAfter (lit ''My operating system is: '') (\<lambda>c. c \<noteq> 0x0A) cannedUserContext of
                    Some m \<Rightarrow> trim m | None \<Rightarrow> ci_os defaultContext),
        ci_cwd = (case matchAfter (lit ''I'' @ [0x27] @ lit ''m currently working in the directory: '')
                          (\<lambda>c. c \<noteq> 0x0A) cannedUserContext of
                     Some m \<Rightarrow> trim m | None \<Rightarrow> ci_cwd defaultContext)\<rparr>)"

definition createCleanedSystemPrompt :: jstring where
  "createCleanedSystemPrompt = join_with (lit ''\<newline>'')
    [lit ''You are an interactive CLI agent specializing in software engineering tasks. Your primary approach is to systematically discover and understand file content to build complete knowledge before taking action.'',
     [],
     lit ''# Core Philosophy: File Content Discovery'',
     [],
     lit ''Programming tasks require understanding existing code, patterns, and structures. Your workflow centers on:'',
     [],
     lit ''1. **Search First:** Use search tools to locate relevant files, functions, and patterns'',
     lit ''2. **Read Systematically:** Read discovered files to understand implementation details'',
     lit ''3. **Build Context:** Continue searching and reading until you have complete understanding'',
     lit ''4. **Act Informed:** Only implement changes after thorough file content analysis'',
     [],
     lit ''# Primary Workflow: Discovery '' @ arrowGlyph @ lit '' Understanding '' @ arrowGlyph @ lit '' Action'',
     [],
     lit ''## Phase 1: Discovery'',
     lit ''- **Search for Patterns:** Use search tools to find relevant code patterns, function names, imports'',
     lit ''- **Identify Key Files:** Locate configuration files, main implementation files, test files'',
     lit ''- **Map Dependencies:** Find how components connect by searching for imports and references'',
     [],
     lit ''## Phase 2: Understanding  '',
     lit ''- **Read Core Files:** Read the main files identified during discovery'',
     lit ''- **Understand Conventions:** Analyze code style, architectural patterns, naming conventions'',
     lit ''- **Study Context:** Read surrounding code to understand how pieces fit together'',
     lit ''- **Verify Assumptions:** Search for additional examples to confirm understanding'',
     [],
     lit ''## Phase 3: Informed Action'',
     lit ''- **Plan with Knowledge:** Create implementation plans based on discovered patterns'',
     lit ''- **Follow Conventions:** Implement using the exact styles and patterns found in existing code'',
     lit ''- **Maintain Consistency:** Ensure changes integrate seamlessly with existing codebase'',
     [],
     lit ''# Tool Usage Strategy'',
     [],
     lit ''## Search Tools (Primary Discovery Method)'',
     lit ''- Use search extensively to find relevant code before reading files'',
     lit ''- Search for function names, class names, import patterns, and usage examples'',
     lit ''- Search for similar implementations to understand existing patterns'',
     [],
     lit ''## Read Tools (Deep Understanding)'',
     lit ''- Read files systematically after identifying them through search'',
     lit ''- Focus on understanding implementation details, not just skimming'',
     lit ''- Read related files to understand full context'',
     [],
     lit ''## Parallel Operations'',
     lit ''- Execute multiple search operations in parallel to build comprehensive understanding quickly'',
     lit ''- Read multiple related files in parallel once identified'',
     [],
     lit ''# Core Principles'',
     [],
     lit ''- **Never Assume:** Always search and read to verify what exists in the codebase'',
     lit ''- **Understand Before Acting:** Build complete understanding through file content analysis'',
     lit ''- **Follow Discovered Patterns:** Mimic exactly what you find in existing code'',
     lit ''- **Context is King:** Read surrounding code to understand how changes should integrate'',
     lit ''- **Search '' @ arrowGlyph @ lit '' Read '' @ arrowGlyph @ lit '' Understand '' @ arrowGlyph @ lit '' Act:** This is your fundamental workflow'',
     [],
     lit ''# Operational Guidelines'',
     [],
     lit ''- **Concise Communication:** Use minimal text output, let tools do the work'',
     lit ''- **Tool-Centric Approach:** Prefer using tools over making assumptions'',
     lit ''- **Absolute Paths:** Always use absolute paths for file operations'',
     lit ''- **Security First:** Never expose secrets or sensitive information'']"

subsection \<open>Truncating search results\<close>

text \<open>\<^verbatim>\<open>/^L\d+:/.test(line)\<close>; \<open>0x4C\<close> is the letter L and \<open>0x3A\<close> the colon.\<close>
definition isResultLine :: "jstring \<Rightarrow> bool" where
  "isResultLine line =
    (case line of
       [] \<Rightarrow> False
     | c # rest \<Rightarrow>
         c = 0x4C \<and> takeWhile isDigit rest \<noteq> []
         \<and> (case dropWhile isDigit rest of [] \<Rightarrow> False | d # after \<Rightarrow> d = 0x3A))"

text \<open>
  The code units the dot of a regular expression does not match: LF, CR, U+2028, U+2029.
\<close>
definition isLineTerminator :: "nat \<Rightarrow> bool" where
  "isLineTerminator c = (c = 0x0A \<or> c = 0x0D \<or> c = 0x2028 \<or> c = 0x2029)"

text \<open>
  \<^verbatim>\<open>line.replace(/^(L\d+: )(.+)$/, ...)\<close>: where the pattern matches the whole line, a
  content of more than 1000 code units is cut and followed by three dots.
\<close>
definition truncateLine :: "jstring \<Rightarrow> jstring" where
  "truncateLine line =
    (case line of
       [] \<Rightarrow> line
     | c # rest \<Rightarrow>
         (let digits = takeWhile isDigit rest;
              after = dropWhile isDigit rest;
              linePrefix = c # digits @ (lit '': '');
              lineContent = drop 2 after
          in if c = 0x4C \<and> digits \<noteq> [] \<and> take 2 after = lit '': '' \<and> lineContent \<noteq> []
                \<and> list_all (\<lambda>x. \<not> isLineTerminator x) lineContent
             then (if length lineContent \<le> 1000 then line
                   else linePrefix @ take 1000 lineContent @ lit ''...'')
             else line))"

text \<open>The line \<^verbatim>\<open>`[... truncated ${n} more results]`\<close>\<close>
definition truncationNotice :: "int \<Rightarrow> jstring" where
  "truncationNotice n = lit ''[... truncated '' @ showInt n @ lit '' more results]''"

text \<open>What the loop pushes for a line it keeps.\<close>
definition processLine :: "jstring \<Rightarrow> jstring" where
  "processLine line = (if isResultLine line then truncateLine line else line)"

text \<open>
  The second loop of \<^verbatim>\<open>truncateSearchResult\<close>, from a value of \<^verbatim>\<open>resultCount\<close> on: the
  lines pushed to \<^verbatim>\<open>truncatedLines\<close>; \<^verbatim>\<open>break\<close> ends the recursion.
\<close>
fun truncateFrom :: "nat \<Rightarrow> nat \<Rightarrow> jstring list \<Rightarrow> jstring list" where
  "truncateFrom totalResults resultCount [] = []"
| "truncateFrom totalResults resultCount (line # rest) =
     (if isResultLine line then
        (if resultCount + 1 > 20
         then [truncationNotice (int totalResults - 20)]
         else truncateLine line # truncateFrom totalResults (resultCount + 1) rest)
      else
        (if resultCount \<le> 20 then line # truncateFrom totalResults resultCount rest
         else truncateFrom totalResults resultCount rest))"

text \<open>Both loops: the count of all result lines, then the bounded copy.\<close>
definition truncateLines :: "jstring list \<Rightarrow> jstring list" where
  "truncateLines lines = truncateFrom (length (filter isResultLine lines)) 0 lines"

text \<open>
  Inside the \<^verbatim>\<open>try\<close> block every exception (the \<^verbatim>\<open>SyntaxError\<close> of \<^verbatim>\<open>JSON.parse\<close>, the
  \<^verbatim>\<open>TypeError\<close> of \<^verbatim>\<open>parsed.output\<close> on \<^verbatim>\<open>null\<close>) leads to \<^verbatim>\<open>return result\<close>.
  \<^verbatim>\<open>{...parsed, output: v}\<close> keeps the properties of \<^verbatim>\<open>parsed\<close> in place and replaces
  \<^verbatim>\<open>output\<close>.
\<close>
definition truncateSearchResult :: "JSON \<Rightarrow> jstring \<Rightarrow> jstring \<Rightarrow> jstring" where
  "truncateSearchResult J functionName result =
    (if functionName \<noteq> lit ''search_file_content'' then result
     else
       (case parse J result of
          None \<Rightarrow> result
        | Some parsed \<Rightarrow>
            (case parsed of
               JObj props \<Rightarrow>
                 (case getProp parsed (lit ''output'') of
                    Some (JStr output) \<Rightarrow>
                      if output \<noteq> [] then
                        stringify J
                          (JObj (AList.update (lit ''output'')
                                   (JStr (join_with (lit ''\<newline>'') (truncateLines (split_nl output)))) props))
                      else result
                  | _ \<Rightarrow> result)
             | _ \<Rightarrow> result)))"

subsection \<open>Messages\<close>

text \<open>
  \<^verbatim>\<open>ChatCompletionMessageParam\<close> with the four roles of the specification. A content is a
  string, an array of parts, or absent (\<^verbatim>\<open>null\<close>, \<^verbatim>\<open>undefined\<close>). For an assistant message
  the module distinguishes a missing \<^verbatim>\<open>tool_calls\<close> key (\<^verbatim>\<open>'tool_calls' in message\<close> is
  false), a key with a false value, and a list.
\<close>

datatype Content = Text jstring | Parts "jstring list" | NoContent

datatype ToolCallsField = Absent | Undefined | Calls "ToolCall list"

datatype Message =
    System Content
  | User Content
  | Assistant Content ToolCallsField
  | Tool Content jstring

fun isSystem :: "Message \<Rightarrow> bool" where
  "isSystem (System c) = True"
| "isSystem _ = False"

fun isUser :: "Message \<Rightarrow> bool" where
  "isUser (User c) = True"
| "isUser _ = False"

fun isAssistant :: "Message \<Rightarrow> bool" where
  "isAssistant (Assistant c tcs) = True"
| "isAssistant _ = False"

fun isTool :: "Message \<Rightarrow> bool" where
  "isTool (Tool c t) = True"
| "isTool _ = False"

text \<open>\<^verbatim>\<open>message.tool_calls\<close> where it is a list, the empty list otherwise.\<close>
fun toolCallsOf :: "Message \<Rightarrow> ToolCall list" where
  "toolCallsOf (Assistant c (Calls tcs)) = tcs"
| "toolCallsOf _ = []"

text \<open>\<^verbatim>\<open>content && typeof content === 'string' && content.trim() !== ''\<close>\<close>
fun hasContent :: "Content \<Rightarrow> bool" where
  "hasContent (Text s) = (trim s \<noteq> [])"
| "hasContent _ = False"

text \<open>\<^verbatim>\<open>typeof content === 'string' && content.trim() === 'Please continue.'\<close>\<close>
fun isPleaseContinue :: "Content \<Rightarrow> bool" where
  "isPleaseContinue (Text s) = (trim s = lit ''Please continue.'')"
| "isPleaseContinue _ = False"

text \<open>\<^verbatim>\<open>message.tool_calls.some(tc => tc.id === toolCallId)\<close>\<close>
definition ownsToolCall :: "jstring \<Rightarrow> Message \<Rightarrow> bool" where
  "ownsToolCall toolCallId message = list_ex (\<lambda>tc. tc_id tc = Some toolCallId) (toolCallsOf message)"

subsection \<open>The strategy\<close>

record Strategy =
  keepLastToolSequence :: bool
  lastToolCallIds :: "jstring set"

fun findAssistantMessageWithToolCalls :: "Message list \<Rightarrow> jstring \<Rightarrow> ToolCall list option" where
  "findAssistantMessageWithToolCalls [] toolCallId = None"
| "findAssistantMessageWithToolCalls (message # rest) toolCallId =
     (case message of
        Assistant c (Calls tool_calls) \<Rightarrow>
          if list_ex (\<lambda>tc. tc_id tc = Some toolCallId) tool_calls then Some tool_calls
          else findAssistantMessageWithToolCalls rest toolCallId
      | _ \<Rightarrow> findAssistantMessageWithToolCalls rest toolCallId)"

text \<open>
  The block the function holds twice, for a last message that is a tool result and for a
  tool result followed by the final request to continue.
\<close>
definition keepSequenceOf :: "Message list \<Rightarrow> jstring \<Rightarrow> Strategy" where
  "keepSequenceOf realConversation lastToolCallId =
    (if lastToolCallId \<noteq> [] then
       (case findAssistantMessageWithToolCalls realConversation lastToolCallId of
          Some allToolCallsFromLastSequence \<Rightarrow>
            \<lparr>keepLastToolSequence = True,
             lastToolCallIds = set (filter (\<lambda>i. i \<noteq> []) (map idOrEmpty allToolCallsFromLastSequence))\<rparr>
        | None \<Rightarrow> \<lparr>keepLastToolSequence = True, lastToolCallIds = {lastToolCallId}\<rparr>)
     else \<lparr>keepLastToolSequence = True, lastToolCallIds = {}\<rparr>)"

definition analyzeToolCallStrategy :: "Message list \<Rightarrow> Strategy" where
  "analyzeToolCallStrategy realConversation =
    (if length realConversation = 0 then \<lparr>keepLastToolSequence = False, lastToolCallIds = {}\<rparr>
     else
       (case last realConversation of
          Tool c lastToolCallId \<Rightarrow> keepSequenceOf realConversation lastToolCallId
        | User content \<Rightarrow>
            if isPleaseContinue content \<and> length realConversation \<ge> 2 then
              (case realConversation ! (length realConversation - 2) of
                 Tool c lastToolCallId \<Rightarrow> keepSequenceOf realConversation lastToolCallId
               | _ \<Rightarrow> \<lparr>keepLastToolSequence = False, lastToolCallIds = {}\<rparr>)
            else \<lparr>keepLastToolSequence = False, lastToolCallIds = {}\<rparr>
        | _ \<Rightarrow> \<lparr>keepLastToolSequence = False, lastToolCallIds = {}\<rparr>))"

subsection \<open>Deconstruction\<close>

record DeconstructedMessages =
  systemPrompt :: jstring
  cannedUserContext :: jstring
  cannedAssistantReply :: jstring
  realConversation :: "Message list"
  toolCallPairs :: "ToolCallPair list"
  virtualFileSystem :: VirtualFileSystem
  fileOperationToolCallIds :: "jstring set"

text \<open>
  The loop that collects the ids of the pairs classified as file operations. The source
  has it twice: in \<^verbatim>\<open>filterToolCallsForVirtualFileSystem\<close> and in \<^verbatim>\<open>deconstructMessages\<close>.
\<close>
fun collectFileOperationIds :: "JSON \<Rightarrow> ToolCallPair list \<Rightarrow> jstring set \<Rightarrow> error + jstring set" where
  "collectFileOperationIds J [] ids = Inr ids"
| "collectFileOperationIds J (pair # pairs) ids =
     (case extractFileOperationFromToolCall J (fst pair) (snd pair) of
        Inl e \<Rightarrow> Inl e
      | Inr None \<Rightarrow> collectFileOperationIds J pairs ids
      | Inr (Some operation) \<Rightarrow> collectFileOperationIds J pairs (insert (idOrEmpty (fst pair)) ids))"

definition filterToolCallsForVirtualFileSystem :: "JSON \<Rightarrow> ToolCallPair list \<Rightarrow> error + ToolCallPair list" where
  "filterToolCallsForVirtualFileSystem J pairs =
    (case collectFileOperationIds J pairs {} of
       Inl e \<Rightarrow> Inl e
     | Inr ids \<Rightarrow> Inr (filter (\<lambda>pair. idOrEmpty (fst pair) \<notin> ids) pairs))"

text \<open>First pass of \<^verbatim>\<open>deconstructMessages\<close>: the map from id to tool call, later entries win.\<close>
definition collectToolCalls :: "Message list \<Rightarrow> (jstring \<rightharpoonup> ToolCall)" where
  "collectToolCalls finalMessages =
    fold (\<lambda>message toolCallMap.
            fold (\<lambda>toolCall m. if idOrEmpty toolCall \<noteq> [] then m(idOrEmpty toolCall \<mapsto> toolCall) else m)
                 (toolCallsOf message) toolCallMap)
         finalMessages Map.empty"

text \<open>Second pass: the pairs of one message that move to the system prompt.\<close>
definition pairOfMessage :: "Strategy \<Rightarrow> (jstring \<rightharpoonup> ToolCall) \<Rightarrow> Message \<Rightarrow> ToolCallPair list" where
  "pairOfMessage strategy toolCallMap message =
    (case message of
       Tool (Text content) tool_call_id \<Rightarrow>
         if tool_call_id \<noteq> [] then
           (case toolCallMap tool_call_id of
              Some toolCall \<Rightarrow>
                if \<not> keepLastToolSequence strategy \<or> tool_call_id \<notin> lastToolCallIds strategy
                then [(toolCall, content)] else []
            | None \<Rightarrow> [])
         else []
     | _ \<Rightarrow> [])"

fun textOf :: "Content \<Rightarrow> jstring" where
  "textOf (Text s) = s"
| "textOf _ = []"

text \<open>
  The block "extract and pair tool calls with results": both passes over the whole input,
  with the strategy of the real conversation.
\<close>
definition pairToolCalls :: "Message list \<Rightarrow> ToolCallPair list" where
  "pairToolCalls finalMessages =
    concat (map (pairOfMessage (analyzeToolCallStrategy (drop 3 finalMessages))
                               (collectToolCalls finalMessages))
                finalMessages)"

definition deconstructMessages :: "JSON \<Rightarrow> disk \<Rightarrow> Message list \<Rightarrow> error + DeconstructedMessages" where
  "deconstructMessages J dsk finalMessages =
    (if length finalMessages < 3 then
       Inr \<lparr>systemPrompt = [], cannedUserContext = [], cannedAssistantReply = [],
            realConversation = finalMessages, toolCallPairs = [], virtualFileSystem = [],
            fileOperationToolCallIds = {}\<rparr>
     else
       (let pairs = pairToolCalls finalMessages
        in case buildVirtualFileSystem J dsk pairs of
             Inl e \<Rightarrow> Inl e
           | Inr vfs \<Rightarrow>
               (case collectFileOperationIds J pairs {} of
                  Inl e \<Rightarrow> Inl e
                | Inr ids \<Rightarrow>
                    (case filterToolCallsForVirtualFileSystem J pairs of
                       Inl e \<Rightarrow> Inl e
                     | Inr filteredToolCallPairs \<Rightarrow>
                         Inr \<lparr>systemPrompt = (case finalMessages ! 0 of System c \<Rightarrow> textOf c | _ \<Rightarrow> []),
                              cannedUserContext = (case finalMessages ! 1 of User c \<Rightarrow> textOf c | _ \<Rightarrow> []),
                              cannedAssistantReply =
                                (case finalMessages ! 2 of Assistant c tcs \<Rightarrow> textOf c | _ \<Rightarrow> []),
                              realConversation = drop 3 finalMessages,
                              toolCallPairs = filteredToolCallPairs,
                              virtualFileSystem = vfs,
                              fileOperationToolCallIds = ids\<rparr>))))"

subsection \<open>Composing the system prompt\<close>

text \<open>The text one iteration of the tool-call loop appends for the pair at index \<open>i\<close> of \<open>n\<close>.\<close>
definition toolCallSection :: "JSON \<Rightarrow> nat \<Rightarrow> nat \<Rightarrow> ToolCallPair \<Rightarrow> jstring" where
  "toolCallSection J i n pair =
    (let functionName = orDefault (fn_name (fst pair)) (lit ''unknown'');
         functionArgs = orDefault (fn_arguments (fst pair)) (lit ''{}'');
         formattedArgs = (case parse J functionArgs of
                            Some parsedArgs \<Rightarrow> stringify2 J parsedArgs
                          | None \<Rightarrow> functionArgs)
     in lit ''## '' @ functionName @ lit ''\<newline>''
        @ lit ''**Arguments:**\<newline>```json\<newline>'' @ formattedArgs @ lit ''\<newline>```\<newline>\<newline>''
        @ lit ''**Result:**\<newline>```\<newline>'' @ truncateSearchResult J functionName (snd pair)
        @ lit ''\<newline>```\<newline>\<newline>''
        @ (if int i < int n - 1 then lit ''--- END OF TOOL CALL ---\<newline>\<newline>'' else []))"

definition buildContextStuffedSystemPrompt ::
  "JSON \<Rightarrow> Env \<Rightarrow> ToolCallPair list \<Rightarrow> jstring \<Rightarrow> VirtualFileSystem \<Rightarrow> jstring" where
  "buildContextStuffedSystemPrompt J env pairs cannedContext vfs =
    (let contextInfo = extractContextInfo env cannedContext in
     createCleanedSystemPrompt
     @ lit ''\<newline>\<newline>'' @ ruleGlyphs @ lit '' '' @ globeGlyph @ lit '' CURRENT ENVIRONMENT '' @ ruleGlyphs
     @ lit ''\<newline>\<newline>''
     @ lit ''- **Date:** '' @ ci_date contextInfo @ lit ''\<newline>''
     @ lit ''- **Operating System:** '' @ ci_os contextInfo @ lit ''\<newline>''
     @ lit ''- **Current Working Directory:** '' @ ci_cwd contextInfo @ lit ''\<newline>''
     @ generateVirtualFileSystemContext vfs
     @ (if length pairs > 0 then
          lit ''\<newline>\<newline>'' @ ruleGlyphs @ lit '' '' @ wrenchGlyph @ lit '' PREVIOUS TOOL CALLS AND RESULTS ''
          @ ruleGlyphs @ lit ''\<newline>\<newline>''
          @ concat (map (\<lambda>i. toolCallSection J i (length pairs) (pairs ! i)) [0 ..< length pairs])
        else []))"

subsection \<open>Collapsing consecutive assistant messages\<close>

text \<open>The contents a run contributes: trimmed, non-empty, first occurrences only.\<close>
fun collectContents :: "jstring list \<Rightarrow> Message list \<Rightarrow> jstring list" where
  "collectContents acc [] = acc"
| "collectContents acc (message # rest) =
     (case message of
        Assistant (Text s) tcs \<Rightarrow>
          if trim s \<noteq> [] \<and> trim s \<notin> set acc then collectContents (acc @ [trim s]) rest
          else collectContents acc rest
      | _ \<Rightarrow> collectContents acc rest)"

definition collapseRun :: "Message list \<Rightarrow> Message list" where
  "collapseRun run =
    (let consecutiveAssistantContents = collectContents [] run;
         allToolCalls = concat (map toolCallsOf run)
     in if length consecutiveAssistantContents > 0 \<or> length allToolCalls > 0
        then [Assistant (Text (join_with (lit ''\<newline>'') consecutiveAssistantContents))
                        (if length allToolCalls > 0 then Calls allToolCalls else Absent)]
        else [])"

function collapseConsecutiveAssistantMessages :: "Message list \<Rightarrow> Message list" where
  "collapseConsecutiveAssistantMessages [] = []"
| "collapseConsecutiveAssistantMessages (currentMessage # rest) =
     (if isAssistant currentMessage
      then collapseRun (takeWhile isAssistant (currentMessage # rest))
           @ collapseConsecutiveAssistantMessages (dropWhile isAssistant rest)
      else currentMessage # collapseConsecutiveAssistantMessages rest)"
  by pat_completeness auto
termination
  by (relation "measure length") (auto simp: less_Suc_eq_le length_dropWhile_le)

declare collapseConsecutiveAssistantMessages.simps(2) [simp del]

subsection \<open>Rebuilding the message list\<close>

fun findToolCallById :: "Message list \<Rightarrow> jstring \<Rightarrow> ToolCall option" where
  "findToolCallById [] toolCallId = None"
| "findToolCallById (message # rest) toolCallId =
     (case find (\<lambda>tc. tc_id tc = Some toolCallId) (toolCallsOf message) of
        Some toolCall \<Rightarrow> Some toolCall
      | None \<Rightarrow> findToolCallById rest toolCallId)"

text \<open>\<^verbatim>\<open>movedToSystemPromptToolCallIds\<close>\<close>
definition movedIds :: "DeconstructedMessages \<Rightarrow> jstring set" where
  "movedIds d =
    set (filter (\<lambda>i. i \<noteq> []) (map (\<lambda>pair. idOrEmpty (fst pair)) (toolCallPairs d)))
    \<union> fileOperationToolCallIds d"

text \<open>What one iteration of the loop over the real conversation pushes, at index \<open>i\<close>.\<close>
definition rebuildMessage ::
  "JSON \<Rightarrow> Message list \<Rightarrow> jstring set \<Rightarrow> Strategy \<Rightarrow> nat \<Rightarrow> Message \<Rightarrow> Message list" where
  "rebuildMessage J conv moved strategy i message =
    (case message of
       Tool content toolCallId \<Rightarrow>
         if toolCallId \<noteq> [] \<and> toolCallId \<notin> moved then
           (let functionName = (case findToolCallById conv toolCallId of
                                  Some toolCall \<Rightarrow> fn_name toolCall | None \<Rightarrow> [])
            in [Tool (case content of
                        Text s \<Rightarrow> Text (truncateSearchResult J functionName s)
                      | _ \<Rightarrow> content) toolCallId])
         else []
     | Assistant content Absent \<Rightarrow> [message]
     | Assistant content Undefined \<Rightarrow> if hasContent content then [message] else []
     | Assistant content (Calls tool_calls) \<Rightarrow>
         (let keptToolCalls =
                filter (\<lambda>toolCall. idOrEmpty toolCall \<noteq> [] \<and> idOrEmpty toolCall \<notin> moved) tool_calls
          in if length keptToolCalls > 0 then [Assistant content (Calls keptToolCalls)]
             else if hasContent content then [Assistant content Absent]
             else [])
     | User content \<Rightarrow>
         if isPleaseContinue content then
           (if int i = int (length conv) - 1 \<and> keepLastToolSequence strategy then [message] else [])
         else [message]
     | System content \<Rightarrow> [])"

fun rebuildFrom ::
  "JSON \<Rightarrow> Message list \<Rightarrow> jstring set \<Rightarrow> Strategy \<Rightarrow> nat \<Rightarrow> Message list \<Rightarrow> Message list" where
  "rebuildFrom J conv moved strategy i [] = []"
| "rebuildFrom J conv moved strategy i (message # rest) =
     rebuildMessage J conv moved strategy i message @ rebuildFrom J conv moved strategy (Suc i) rest"

definition buildNewMessagesArray ::
  "JSON \<Rightarrow> Env \<Rightarrow> DeconstructedMessages \<Rightarrow> Message list \<Rightarrow> Message list" where
  "buildNewMessagesArray J env deconstructed originalRealConversation =
    (let contextStuffedSystemPrompt =
           buildContextStuffedSystemPrompt J env (toolCallPairs deconstructed)
             (cannedUserContext deconstructed) (virtualFileSystem deconstructed);
         strategy = analyzeToolCallStrategy originalRealConversation
     in collapseConsecutiveAssistantMessages
          (System (Text contextStuffedSystemPrompt)
           # rebuildFrom J (realConversation deconstructed) (movedIds deconstructed) strategy 0
               (realConversation deconstructed)))"

definition reconfigureFinalMessages :: "JSON \<Rightarrow> disk \<Rightarrow> Env \<Rightarrow> Message list \<Rightarrow> error + Message list" where
  "reconfigureFinalMessages J dsk env finalMessages =
    (case deconstructMessages J dsk finalMessages of
       Inl e \<Rightarrow> Inl e
     | Inr deconstructed \<Rightarrow>
         Inr (buildNewMessagesArray J env deconstructed (realConversation deconstructed)))"

subsection \<open>Notions the statements use\<close>



text \<open>The ids of the tool calls of a message, and linkage relative to ids seen before.\<close>
definition idsOf :: "Message \<Rightarrow> jstring set" where
  "idsOf m = {t. ownsToolCall t m}"









section \<open>Concrete inputs\<close>

text \<open>
  The inputs the closed theorems below are evaluated on. \<open>exJSON\<close> is a finite fragment
  of the runtime's JSON functions: \<open>parse\<close> knows the texts the examples use, and
  \<open>stringify\<close> writes an object with the single string property \<^verbatim>\<open>output\<close>.
\<close>

definition exNewlineDisk :: disk where
  "exNewlineDisk = map_of [(JStr (lit ''/f.txt''), lit ''one\<newline>two\<newline>'')]"

definition exHits :: "nat \<Rightarrow> jstring list" where
  "exHits n = map (\<lambda>i. (lit ''L'') @ showNat i @ lit '': hit'') [1 ..< Suc n]"

text \<open>The JSON text of an object whose only property \<^verbatim>\<open>output\<close> holds the given lines.\<close>
definition outputText :: "jstring list \<Rightarrow> jstring" where
  "outputText lines = lit ''{\"output\":\"'' @ join_with [0x5C, 0x6E] lines @ lit ''\"}''"

definition exSearchResult :: jstring where
  "exSearchResult = outputText (exHits 32)"


definition exWriteEmptyArgs :: jstring where
  "exWriteEmptyArgs = lit ''{\"file_path\":\"/a.txt\",\"content\":\"\"}''"

definition exWriteArgs :: jstring where
  "exWriteArgs = lit ''{\"file_path\":\"/a.txt\",\"content\":\"new text\"}''"

definition exReadArgs :: jstring where
  "exReadArgs = lit ''{\"absolute_path\":\"/a.txt\"}''"

definition exSearchArgs :: jstring where
  "exSearchArgs = lit ''{\"pattern\":\"hit\"}''"

definition exJSON :: JSON where
  "exJSON =
    \<lparr>parse = map_of
       [(exWriteEmptyArgs, JObj [(lit ''file_path'', JStr (lit ''/a.txt'')), (lit ''content'', JStr [])]),
        (exWriteArgs, JObj [(lit ''file_path'', JStr (lit ''/a.txt'')), (lit ''content'', JStr (lit ''new text''))]),
        (exReadArgs, JObj [(lit ''absolute_path'', JStr (lit ''/a.txt''))]),
        (lit ''null'', JNull),
        (exSearchArgs, JObj [(lit ''pattern'', JStr (lit ''hit''))]),
        (lit ''{}'', JObj []),
        (exSearchResult, JObj [(lit ''output'', JStr (join_with (lit ''\<newline>'') (exHits 32)))])],
     stringify = (\<lambda>v. case v of
                         JObj [(k, JStr s)] \<Rightarrow> if k = lit ''output'' then outputText (split_nl s) else []
                       | _ \<Rightarrow> []),
     stringify2 = (\<lambda>v. [])\<rparr>"

definition exWriteEmptyCall :: ToolCall where
  "exWriteEmptyCall = \<lparr>tc_id = Some (lit ''call_1''), fn_name = lit ''write_file'', fn_arguments = exWriteEmptyArgs\<rparr>"

definition exWriteCall :: ToolCall where
  "exWriteCall = \<lparr>tc_id = Some (lit ''call_1''), fn_name = lit ''write_file'', fn_arguments = exWriteArgs\<rparr>"

definition exReadCall :: ToolCall where
  "exReadCall = \<lparr>tc_id = Some (lit ''call_2''), fn_name = lit ''read_file'', fn_arguments = exReadArgs\<rparr>"

definition exNoIdCall :: ToolCall where
  "exNoIdCall = \<lparr>tc_id = None, fn_name = lit ''read_file'', fn_arguments = exReadArgs\<rparr>"

definition exDisk :: disk where
  "exDisk = map_of [(JStr (lit ''/a.txt''), lit ''one\<newline>two\<newline>three\<newline>four'')]"

definition exEnv :: Env where
  "exEnv = \<lparr>today = lit ''Tue Nov 03 2026'', workdir = lit ''/work''\<rparr>"

definition exSearchCall :: ToolCall where
  "exSearchCall = \<lparr>tc_id = Some (lit ''call_3''), fn_name = lit ''search_file_content'', fn_arguments = exSearchArgs\<rparr>"

definition exEmptyIdCall :: ToolCall where
  "exEmptyIdCall = \<lparr>tc_id = Some [], fn_name = lit ''read_file'', fn_arguments = exReadArgs\<rparr>"

definition exNullCall :: ToolCall where
  "exNullCall = \<lparr>tc_id = Some (lit ''call_4''), fn_name = lit ''read_file'', fn_arguments = lit ''null''\<rparr>"

text \<open>A parallel fan-out as the last cycle.\<close>
definition exFanOut :: "Message list" where
  "exFanOut =
    [User (Text (lit ''find the hits'')),
     Assistant (Text (lit ''Searching.'')) (Calls [exSearchCall, exReadCall]),
     Tool (Text exSearchResult) (lit ''call_3''),
     Tool (Text (lit ''one'')) (lit ''call_2'')]"

text \<open>An assistant message with a tool call whose id is the empty string.\<close>
definition exEmptyIdConversation :: "Message list" where
  "exEmptyIdConversation =
    [Assistant NoContent (Calls [exReadCall, exEmptyIdCall]),
     Tool (Text (lit ''one'')) (lit ''call_2'')]"

definition exContext :: jstring where
  "exContext = lit ''Today's date is Tuesday, November 3, 2026.\<newline>My operating system is: linux\<newline>I'm currently working in the directory: /work''"

definition exPreamble :: "Message list" where
  "exPreamble =
    [System (Text (lit ''You are a CLI agent.'')), User (Text exContext), Assistant (Text (lit ''Got it.'')) Absent]"

text \<open>A completed read whose arguments are the JSON text \<^verbatim>\<open>null\<close>.\<close>
definition exNullInput :: "Message list" where
  "exNullInput =
    exPreamble
    @ [Assistant NoContent (Calls [exNullCall]), Tool (Text (lit ''failed'')) (lit ''call_4''),
       User (Text (lit ''what next?''))]"

text \<open>
  Requests to continue with white space around them: a no-break space before and a byte
  order mark and a line separator after the first, a tab and an ideographic space before
  and a line feed after the last. The third message has two spaces between the words.
\<close>
definition exContinueConversation :: "Message list" where
  "exContinueConversation =
    [User (Text ([0xA0] @ lit ''Please continue.'' @ [0xFEFF, 0x2028])),
     User (Text (lit ''fix the bug'')),
     User (Text (lit ''Please  continue.'')),
     Assistant NoContent (Calls [exReadCall]),
     Tool (Text (lit ''one'')) (lit ''call_2''),
     User (Text ([0x09, 0x3000] @ lit ''Please continue.'' @ [0x0A]))]"

text \<open>The deconstruction of an input that starts with \<open>exPreamble\<close>.\<close>
definition exDeconstructed ::
  "Message list \<Rightarrow> ToolCallPair list \<Rightarrow> VirtualFileSystem \<Rightarrow> jstring set \<Rightarrow> DeconstructedMessages" where
  "exDeconstructed conversation pairs vfs ids =
    \<lparr>systemPrompt = lit ''You are a CLI agent.'', cannedUserContext = exContext,
     cannedAssistantReply = lit ''Got it.'', realConversation = conversation,
     toolCallPairs = pairs, virtualFileSystem = vfs, fileOperationToolCallIds = ids\<rparr>"

definition exContinueDeconstructed :: DeconstructedMessages where
  "exContinueDeconstructed = exDeconstructed exContinueConversation [] [] {}"











section \<open>Properties\<close>

subsection \<open>Literals, splitting and joining lines\<close>

lemma lit_eq [simp]: "lit a = lit b \<longleftrightarrow> a = b"
  by (simp add: lit_def inj_map_eq_map inj_of_char)

lemma lit_Nil [simp]: "lit [] = []"
  by (simp add: lit_def)

lemma lit_Nil_iff [simp]: "lit s = [] \<longleftrightarrow> s = []" "[] = lit s \<longleftrightarrow> s = []"
  by (auto simp: lit_def)



lemma length_lit [simp]: "length (lit s) = length s"
  by (simp add: lit_def)


lemma split_nl_nonempty: "split_nl s \<noteq> []"
  by (induction s) (auto split: list.splits)

lemma split_nl_snoc_nl: "split_nl (c @ [0x0A]) = split_nl c @ [[]]"
  by (induction c) (auto split: list.splits simp: split_nl_nonempty)








subsection \<open>The file-range reader\<close>

lemma readFileRange_whole:
  "dsk p = Some content \<Longrightarrow>
   readFileRange dsk p None None
     = Inr (map (\<lambda>i. (i + 1, split_nl content ! i)) [0 ..< length (split_nl content)])"
  by (simp add: readFileRange_def Let_def)


text \<open>
  Claim C8, as amended. \<^verbatim>\<open>readFileRange\<close> with the default offset and limit splits the
  content on the newline character and maps line \<open>i + 1\<close> to the \<open>i\<close>-th piece, for every
  piece: a content that ends in a newline has one more piece than the content without it,
  and the last line number is mapped to the empty string.
\<close>

theorem readFileRange_keeps_trailing_piece:
  assumes "dsk p = Some content"
  shows "readFileRange dsk p None None
           = Inr (map (\<lambda>i. (i + 1, split_nl content ! i)) [0 ..< length (split_nl content)])
         \<and> (\<forall>c. content = c @ [0x0A] \<longrightarrow>
               length (split_nl content) = length (split_nl c) + 1
               \<and> map_of (map (\<lambda>i. (i + 1, split_nl content ! i)) [0 ..< length (split_nl content)])
                     (length (split_nl content)) = Some [])"
proof -
  have a: "readFileRange dsk p None None
           = Inr (map (\<lambda>i. (i + 1, split_nl content ! i)) [0 ..< length (split_nl content)])"
    using assms by (rule readFileRange_whole)
  have b: "map_of (map (\<lambda>i. (i + 1, (xs::jstring list) ! i)) [0 ..< length xs]) (length xs) = Some (last xs)"
    if "xs \<noteq> []" for xs
    using that
  proof (induction xs rule: rev_induct)
    case Nil then show ?case by simp
  next
    case (snoc x xs)
    have "map_of (map (\<lambda>i. (i + 1, (xs @ [x]) ! i)) [0 ..< length xs]) (Suc (length xs)) = None"
      by (auto simp: map_of_eq_None_iff image_iff)
    then show ?case by (simp add: map_add_def)
  qed
  show ?thesis
    using a b[OF split_nl_nonempty, of content] by (auto simp: split_nl_snoc_nl)
qed

theorem readFileRange_keeps_trailing_piece_witness:
  "readFileRange exNewlineDisk (JStr (lit ''/f.txt'')) None None
     = Inr [(1, lit ''one''), (2, lit ''two''), (3, [])]
   \<and> length (split_nl (lit ''one\<newline>two\<newline>'')) = length (split_nl (lit ''one\<newline>two'')) + 1
   \<and> map_of [(1, lit ''one''), (2, lit ''two''), (3, [])] (3::nat) = Some []"
proof -
  have h: "exNewlineDisk (JStr (lit ''/f.txt'')) = Some (lit ''one\<newline>two\<newline>'')"
    by (simp add: exNewlineDisk_def)
  have c: "lit ''one\<newline>two\<newline>'' = lit ''one\<newline>two'' @ [0x0A]"
    by (simp add: lit_def)
  have e: "map (\<lambda>i. (i + 1, split_nl (lit ''one\<newline>two\<newline>'') ! i))
               [0 ..< length (split_nl (lit ''one\<newline>two\<newline>''))]
           = [(1, lit ''one''), (2, lit ''two''), (3, [])]"
    by code_simp
  have l: "length (split_nl (lit ''one\<newline>two\<newline>'')) = 3"
    by code_simp
  note t = readFileRange_keeps_trailing_piece[of exNewlineDisk "JStr (lit ''/f.txt'')"
             "lit ''one\<newline>two\<newline>''", OF h]
  note t1 = t[THEN conjunct1]
  note t2 = t[THEN conjunct2, THEN spec, THEN mp, OF c]
  from t1 have r: "readFileRange exNewlineDisk (JStr (lit ''/f.txt'')) None None
                     = Inr [(1, lit ''one''), (2, lit ''two''), (3, [])]"
    by (simp only: e)
  have m: "map_of [(1, lit ''one''), (2, lit ''two''), (3, [])] (3::nat) = Some []"
    using t2[THEN conjunct2] unfolding e unfolding l .
  from r t2[THEN conjunct1] m show ?thesis by (intro conjI)
qed

text \<open>
  Claim C8 as stated fails: for the content \<^verbatim>\<open>"one\ntwo\n"\<close> the returned mapping has the
  third entry \<open>3 \<mapsto> ""\<close>, so it is not the mapping \<open>{1 \<mapsto> "one", 2 \<mapsto> "two"}\<close>.
\<close>

theorem readFileRange_terminal_newline_counterexample:
  "exNewlineDisk (JStr (lit ''/f.txt'')) = Some (lit ''one\<newline>two\<newline>'')
   \<and> readFileRange exNewlineDisk (JStr (lit ''/f.txt'')) None None
       = Inr [(1, lit ''one''), (2, lit ''two''), (3, [])]
   \<and> map_of [(1::nat, lit ''one''), (2, lit ''two''), (3, [])] \<noteq> [1 \<mapsto> lit ''one'', 2 \<mapsto> lit ''two'']"
proof -
  have d: "exNewlineDisk (JStr (lit ''/f.txt'')) = Some (lit ''one\<newline>two\<newline>'')"
    by (simp add: exNewlineDisk_def)
  have r: "readFileRange exNewlineDisk (JStr (lit ''/f.txt'')) None None
             = Inr [(1, lit ''one''), (2, lit ''two''), (3, [])]"
    by code_simp
  have "map_of [(1::nat, lit ''one''), (2, lit ''two''), (3, [])] 3 \<noteq> [1 \<mapsto> lit ''one'', 2 \<mapsto> lit ''two''] 3"
    by simp
  then have "map_of [(1::nat, lit ''one''), (2, lit ''two''), (3, [])] \<noteq> [1 \<mapsto> lit ''one'', 2 \<mapsto> lit ''two'']"
    by metis
  with d r show ?thesis by simp
qed

subsection \<open>The classifier\<close>

lemma extract_no_id:
  "idOrEmpty tc = [] \<Longrightarrow> extractFileOperationFromToolCall J tc r = Inr None"
  by (simp add: extractFileOperationFromToolCall_def)

lemma extract_Some_id:
  "extractFileOperationFromToolCall J tc r = Inr (Some operation) \<Longrightarrow> idOrEmpty tc \<noteq> []"
  by (auto simp: extractFileOperationFromToolCall_def Let_def split: if_splits option.splits)


text \<open>
  Claim C9, as amended. For a tool call named \<^verbatim>\<open>write_file\<close> with a non-empty id whose
  arguments decode to an object in which \<^verbatim>\<open>file_path\<close> is a string, the classifier
  returns the write operation for that path exactly when the path is not the empty string
  and the \<^verbatim>\<open>content\<close> property is truthy (present, and not the empty string, \<^verbatim>\<open>0\<close>,
  \<^verbatim>\<open>false\<close> or \<^verbatim>\<open>null\<close>); otherwise it returns \<^verbatim>\<open>null\<close>. The operation carries no
  range.
\<close>

theorem extract_write_file_needs_truthy_content:
  assumes "fn_name tc = lit ''write_file''" "idOrEmpty tc \<noteq> []"
      and "parse J (orDefault (fn_arguments tc) (lit ''{}'')) = Some (JObj props)"
      and "map_of props (lit ''file_path'') = Some (JStr p)"
  shows "extractFileOperationFromToolCall J tc r =
           (if p \<noteq> [] \<and> truthy (map_of props (lit ''content''))
            then Inr (Some \<lparr>op_type = Write, filepath = JStr p,
                             op_content = map_of props (lit ''content''), op_toolCallId = idOrEmpty tc\<rparr>)
            else Inr None)"
  using assms by (simp add: extractFileOperationFromToolCall_def)

theorem extract_write_file_needs_truthy_content_witness:
  "extractFileOperationFromToolCall exJSON exWriteCall (lit ''written'') =
     Inr (Some \<lparr>op_type = Write, filepath = JStr (lit ''/a.txt''),
                 op_content = Some (JStr (lit ''new text'')), op_toolCallId = lit ''call_1''\<rparr>)"
proof -
  have h1: "fn_name exWriteCall = lit ''write_file''" by (simp add: exWriteCall_def)
  have h2: "idOrEmpty exWriteCall \<noteq> []" by (simp add: exWriteCall_def idOrEmpty_def)
  have h3: "parse exJSON (orDefault (fn_arguments exWriteCall) (lit ''{}''))
              = Some (JObj [(lit ''file_path'', JStr (lit ''/a.txt'')), (lit ''content'', JStr (lit ''new text''))])"
    by code_simp
  have h4: "map_of [(lit ''file_path'', JStr (lit ''/a.txt'')), (lit ''content'', JStr (lit ''new text''))] (lit ''file_path'')
              = Some (JStr (lit ''/a.txt''))"
    by simp
  have i: "idOrEmpty exWriteCall = lit ''call_1''" by (simp add: exWriteCall_def idOrEmpty_def)
  from extract_write_file_needs_truthy_content[OF h1 h2 h3 h4, of "(lit ''written'')"] i
  show ?thesis by simp
qed

text \<open>
  Claim C9 as stated fails for the empty string as content: the arguments
  \<^verbatim>\<open>{"file_path":"/a.txt","content":""}\<close> decode to an object with a string \<^verbatim>\<open>file_path\<close> and
  a present \<^verbatim>\<open>content\<close>, and the classifier returns \<^verbatim>\<open>null\<close>.
\<close>

theorem extract_write_file_empty_content_counterexample:
  "fn_name exWriteEmptyCall = lit ''write_file''
   \<and> tc_id exWriteEmptyCall = Some (lit ''call_1'')
   \<and> parse exJSON (fn_arguments exWriteEmptyCall)
        = Some (JObj [(lit ''file_path'', JStr (lit ''/a.txt'')), (lit ''content'', JStr [])])
   \<and> extractFileOperationFromToolCall exJSON exWriteEmptyCall (lit ''written'') = Inr None"
  by code_simp

subsection \<open>Tool calls without an id\<close>

lemma trackPair_no_id: "idOrEmpty tc = [] \<Longrightarrow> trackPair J dsk (tc, r) vfs = Inr vfs"
  by (simp add: trackPair_def extract_no_id)

lemma build_from_append:
  "buildVirtualFileSystemFrom J dsk (ps @ qs) vfs =
     (case buildVirtualFileSystemFrom J dsk ps vfs of Inl e \<Rightarrow> Inl e
      | Inr vfs' \<Rightarrow> buildVirtualFileSystemFrom J dsk qs vfs')"
  by (induction ps arbitrary: vfs) (auto split: sum.splits)

lemma build_skip_no_id:
  "idOrEmpty tc = [] \<Longrightarrow>
   buildVirtualFileSystem J dsk (ps @ (tc, r) # qs) = buildVirtualFileSystem J dsk (ps @ qs)"
  by (simp add: buildVirtualFileSystem_def build_from_append trackPair_no_id split: sum.splits)

lemma collect_append:
  "collectFileOperationIds J (ps @ qs) ids =
     (case collectFileOperationIds J ps ids of Inl e \<Rightarrow> Inl e
      | Inr ids' \<Rightarrow> collectFileOperationIds J qs ids')"
  by (induction ps arbitrary: ids) (auto split: sum.splits option.splits)

lemma collect_skip_no_id:
  "idOrEmpty tc = [] \<Longrightarrow>
   collectFileOperationIds J (ps @ (tc, r) # qs) ids = collectFileOperationIds J (ps @ qs) ids"
  by (simp add: collect_append extract_no_id split: sum.splits)

lemma collect_ids_subset:
  "collectFileOperationIds J ps ids = Inr ids' \<Longrightarrow>
   ids \<subseteq> ids' \<and> ids' \<subseteq> ids \<union> {i. i \<noteq> [] \<and> i \<in> (\<lambda>p. idOrEmpty (fst p)) ` set ps}"
proof (induction ps arbitrary: ids)
  case Nil then show ?case by simp
next
  case (Cons pr ps)
  show ?case
  proof (cases "extractFileOperationFromToolCall J (fst pr) (snd pr)")
    case (Inl e) with Cons.prems show ?thesis by simp
  next
    case (Inr r)
    show ?thesis
    proof (cases r)
      case None
      with Inr Cons.prems have "collectFileOperationIds J ps ids = Inr ids'" by simp
      from Cons.IH[OF this] show ?thesis by auto
    next
      case (Some operation)
      with Inr Cons.prems have "collectFileOperationIds J ps (insert (idOrEmpty (fst pr)) ids) = Inr ids'" by simp
      from Cons.IH[OF this] extract_Some_id[of J "fst pr" "snd pr" operation] Inr Some
      show ?thesis by auto
    qed
  qed
qed


text \<open>
  Claim C10. For a tool call whose id is missing or the empty string the classifier
  returns \<^verbatim>\<open>null\<close>, whatever its name and arguments. Consequently a pair with such a call,
  anywhere in a list of pairs, changes neither the virtual file system built from the list
  nor the collected set of file-operation ids, and the filter that removes the file
  operations keeps the pair, so its result is not replaced by the snapshot.
\<close>

theorem extract_without_id_is_null:
  assumes "tc_id tc = None \<or> tc_id tc = Some []"
  shows "extractFileOperationFromToolCall J tc r = Inr None
       \<and> buildVirtualFileSystem J dsk (ps @ (tc, r) # qs) = buildVirtualFileSystem J dsk (ps @ qs)
       \<and> collectFileOperationIds J (ps @ (tc, r) # qs) {} = collectFileOperationIds J (ps @ qs) {}
       \<and> (\<forall>kept. filterToolCallsForVirtualFileSystem J (ps @ (tc, r) # qs) = Inr kept
                  \<longrightarrow> (tc, r) \<in> set kept)"
proof -
  have e: "idOrEmpty tc = []" using assms by (auto simp: idOrEmpty_def)
  have "(tc, r) \<in> set kept" if "filterToolCallsForVirtualFileSystem J (ps @ (tc, r) # qs) = Inr kept" for kept
  proof -
    from that obtain ids where c: "collectFileOperationIds J (ps @ (tc, r) # qs) {} = Inr ids"
      and k: "kept = filter (\<lambda>pair. idOrEmpty (fst pair) \<notin> ids) (ps @ (tc, r) # qs)"
      by (auto simp: filterToolCallsForVirtualFileSystem_def split: sum.splits)
    from collect_ids_subset[OF c] have "[] \<notin> ids" by auto
    with k e show ?thesis by simp
  qed
  then show ?thesis
    using e by (simp add: extract_no_id build_skip_no_id collect_skip_no_id)
qed

theorem extract_without_id_is_null_witness:
  "extractFileOperationFromToolCall exJSON exNoIdCall (lit ''text'') = Inr None
   \<and> buildVirtualFileSystem exJSON exDisk [(exReadCall, lit ''one''), (exNoIdCall, lit ''text'')]
       = Inr [(lit ''/a.txt'', [(1, lit ''one''), (2, lit ''two''), (3, lit ''three''), (4, lit ''four'')])]
   \<and> collectFileOperationIds exJSON [(exReadCall, lit ''one''), (exNoIdCall, lit ''text'')] {} = Inr {lit ''call_2''}
   \<and> filterToolCallsForVirtualFileSystem exJSON [(exReadCall, lit ''one''), (exNoIdCall, lit ''text'')]
       = Inr [(exNoIdCall, lit ''text'')]"
proof -
  have h: "tc_id exNoIdCall = None \<or> tc_id exNoIdCall = Some []"
    by (simp add: exNoIdCall_def)
  have v: "buildVirtualFileSystem exJSON exDisk ([(exReadCall, lit ''one'')] @ [])
             = Inr [(lit ''/a.txt'', [(1, lit ''one''), (2, lit ''two''), (3, lit ''three''), (4, lit ''four'')])]"
    by code_simp
  have c: "collectFileOperationIds exJSON ([(exReadCall, lit ''one'')] @ []) {} = Inr {lit ''call_2''}"
    by code_simp
  have f: "filterToolCallsForVirtualFileSystem exJSON [(exReadCall, lit ''one''), (exNoIdCall, lit ''text'')]
             = Inr [(exNoIdCall, lit ''text'')]"
    by code_simp
  from extract_without_id_is_null[OF h, of exJSON "(lit ''text'')" exDisk "[(exReadCall, lit ''one'')]" "[]"] v c f
  show ?thesis by simp
qed

subsection \<open>The search-result truncator\<close>









lemma truncateLine_subset: "set (truncateLine l) \<subseteq> set l \<union> set (lit '': ...'')"
proof (cases l)
  case Nil then show ?thesis by (simp add: truncateLine_def)
next
  case (Cons c rest)
  have a: "set (takeWhile isDigit rest) \<subseteq> set rest"
    by (auto dest: set_takeWhileD)
  have b: "set (take 1000 (drop 2 (dropWhile isDigit rest))) \<subseteq> set rest"
    by (meson in_set_dropD in_set_takeD set_dropWhileD subsetI)
  show ?thesis
    using a b by (auto simp: Cons truncateLine_def Let_def lit_def)
qed

lemma truncateLine_no_newline: "0x0A \<notin> set l \<Longrightarrow> 0x0A \<notin> set (truncateLine l)"
  using truncateLine_subset[of l] by (auto simp: lit_def)

lemma processLine_no_newline: "0x0A \<notin> set l \<Longrightarrow> 0x0A \<notin> set (processLine l)"
  by (simp add: processLine_def truncateLine_no_newline)












subsection \<open>The strategy analyzer\<close>

lemma find_owner_None:
  "findAssistantMessageWithToolCalls conv t = None \<longleftrightarrow> (\<forall>m\<in>set conv. \<not> ownsToolCall t m)"
proof (induction conv)
  case Nil then show ?case by simp
next
  case (Cons m ms)
  show ?case
  proof (cases m)
    case (Assistant c f)
    then show ?thesis using Cons by (cases f) (auto simp: ownsToolCall_def)
  qed (use Cons in \<open>auto simp: ownsToolCall_def\<close>)
qed

lemma find_owner_first:
  assumes "\<forall>m\<in>set pre. \<not> ownsToolCall t m" "list_ex (\<lambda>tc. tc_id tc = Some t) calls"
  shows "findAssistantMessageWithToolCalls (pre @ Assistant a (Calls calls) # post) t = Some calls"
  using assms
proof (induction pre)
  case Nil then show ?case by simp
next
  case (Cons m ms)
  show ?case
  proof (cases m)
    case (Assistant c f)
    then show ?thesis using Cons by (cases f) (auto simp: ownsToolCall_def)
  qed (use Cons in \<open>auto simp: ownsToolCall_def\<close>)
qed


lemma nonempty_ids:
  "set (filter (\<lambda>i. i \<noteq> []) (map idOrEmpty calls)) = {s. s \<noteq> [] \<and> (\<exists>tc\<in>set calls. tc_id tc = Some s)}"
proof -
  have "idOrEmpty tc = s" if "tc_id tc = Some s" for tc s
    using that by (simp add: idOrEmpty_def)
  then show ?thesis
    by (auto simp: image_iff idOrEmpty_def split: option.splits) force
qed

lemma analyze_last_tool: 
  "conv \<noteq> [] \<Longrightarrow> last conv = Tool c t \<Longrightarrow> analyzeToolCallStrategy conv = keepSequenceOf conv t"
  by (simp add: analyzeToolCallStrategy_def)



text \<open>
  Claim C4, as amended. For a non-empty real conversation whose last message is a tool
  message, \<^verbatim>\<open>analyzeToolCallStrategy\<close> returns \<^verbatim>\<open>keepLastToolSequence = true\<close>. If the last
  message's \<^verbatim>\<open>tool_call_id\<close> is the empty string the kept set is empty. Otherwise, when no
  assistant message of the conversation has a tool call with that id, the kept set is the
  singleton of the id; and when one has, the kept set is the set of the non-empty ids of the
  whole tool-call list of the first such assistant message.
\<close>

theorem analyze_keeps_whole_fan_out:
  assumes "conv \<noteq> []" "last conv = Tool c t"
  shows "keepLastToolSequence (analyzeToolCallStrategy conv)
       \<and> (t = [] \<longrightarrow> lastToolCallIds (analyzeToolCallStrategy conv) = {})
       \<and> (t \<noteq> [] \<longrightarrow> (\<forall>m\<in>set conv. \<not> ownsToolCall t m)
             \<longrightarrow> lastToolCallIds (analyzeToolCallStrategy conv) = {t})
       \<and> (\<forall>pre a calls post.
             t \<noteq> [] \<longrightarrow> conv = pre @ Assistant a (Calls calls) # post
             \<longrightarrow> list_ex (\<lambda>tc. tc_id tc = Some t) calls
             \<longrightarrow> (\<forall>m\<in>set pre. \<not> ownsToolCall t m)
             \<longrightarrow> lastToolCallIds (analyzeToolCallStrategy conv)
                   = {s. s \<noteq> [] \<and> (\<exists>tc\<in>set calls. tc_id tc = Some s)})"
proof -
  note a = analyze_last_tool[OF assms]
  have k: "keepLastToolSequence (keepSequenceOf conv t)"
    by (simp add: keepSequenceOf_def split: option.splits)
  have e: "lastToolCallIds (keepSequenceOf conv t) = {}" if "t = []"
    using that by (simp add: keepSequenceOf_def)
  have n: "lastToolCallIds (keepSequenceOf conv t) = {t}" if "t \<noteq> []" "\<forall>m\<in>set conv. \<not> ownsToolCall t m"
    using that find_owner_None[of conv t] by (simp add: keepSequenceOf_def)
  have f: "lastToolCallIds (keepSequenceOf conv t) = {s. s \<noteq> [] \<and> (\<exists>tc\<in>set calls. tc_id tc = Some s)}"
    if "t \<noteq> []" "conv = pre @ Assistant a (Calls calls) # post"
       "list_ex (\<lambda>tc. tc_id tc = Some t) calls" "\<forall>m\<in>set pre. \<not> ownsToolCall t m"
    for pre a calls post
    using that find_owner_first[of pre t calls a post] nonempty_ids[of calls]
    by (simp add: keepSequenceOf_def)
  show ?thesis unfolding a using k e n f by blast
qed


theorem analyze_keeps_whole_fan_out_witness:
  "keepLastToolSequence (analyzeToolCallStrategy exFanOut)
   \<and> lastToolCallIds (analyzeToolCallStrategy exFanOut) = {lit ''call_3'', lit ''call_2''}"
proof -
  have h1: "exFanOut \<noteq> []" by (simp add: exFanOut_def)
  have h2: "last exFanOut = Tool (Text (lit ''one'')) (lit ''call_2'')" by (simp add: exFanOut_def)
  have h3: "exFanOut = [User (Text (lit ''find the hits''))]
              @ Assistant (Text (lit ''Searching.'')) (Calls [exSearchCall, exReadCall])
                # [Tool (Text exSearchResult) (lit ''call_3''), Tool (Text (lit ''one'')) (lit ''call_2'')]"
    by (simp add: exFanOut_def)
  have h4: "list_ex (\<lambda>tc. tc_id tc = Some (lit ''call_2'')) [exSearchCall, exReadCall]"
    by (simp add: exSearchCall_def exReadCall_def)
  have h5: "\<forall>m\<in>set [User (Text (lit ''find the hits''))]. \<not> ownsToolCall (lit ''call_2'') m"
    by (simp add: ownsToolCall_def)
  have e: "{s. s \<noteq> [] \<and> (\<exists>tc\<in>set [exSearchCall, exReadCall]. tc_id tc = Some s)} = {lit ''call_3'', lit ''call_2''}"
    by (auto simp: exSearchCall_def exReadCall_def)
  have h0: "(lit ''call_2'') \<noteq> []" by simp
  note t = analyze_keeps_whole_fan_out[OF h1 h2]
  note k = t[THEN conjunct1]
  note q = t[THEN conjunct2, THEN conjunct2, THEN conjunct2, THEN spec, THEN spec, THEN spec,
             THEN spec, THEN mp, THEN mp, THEN mp, THEN mp, OF h0 h3 h4 h5]
  show ?thesis using k q unfolding e by (rule conjI)
qed

text \<open>
  Claim C4 as stated fails where a tool call of the owning assistant message has the empty
  string as id: the call list has the ids \<open>call_2\<close> and the empty string, and the returned
  set holds \<open>call_2\<close> only.
\<close>

theorem analyze_empty_id_counterexample:
  "last exEmptyIdConversation = Tool (Text (lit ''one'')) (lit ''call_2'')
   \<and> ownsToolCall (lit ''call_2'') (Assistant NoContent (Calls [exReadCall, exEmptyIdCall]))
   \<and> lastToolCallIds (analyzeToolCallStrategy exEmptyIdConversation) = {lit ''call_2''}
   \<and> lastToolCallIds (analyzeToolCallStrategy exEmptyIdConversation)
       \<noteq> {s. \<exists>tc\<in>set [exReadCall, exEmptyIdCall]. tc_id tc = Some s}"
proof -
  have a: "last exEmptyIdConversation = Tool (Text (lit ''one'')) (lit ''call_2'')"
    by (simp add: exEmptyIdConversation_def)
  have b: "ownsToolCall (lit ''call_2'') (Assistant NoContent (Calls [exReadCall, exEmptyIdCall]))"
    by (simp add: ownsToolCall_def exReadCall_def)
  have c: "lastToolCallIds (analyzeToolCallStrategy exEmptyIdConversation) = {lit ''call_2''}"
    by code_simp
  have m: "[] \<in> {s. \<exists>tc\<in>set [exReadCall, exEmptyIdCall]. tc_id tc = Some s}"
    by (simp add: exEmptyIdCall_def)
  have d: "{lit ''call_2''} \<noteq> {s. \<exists>tc\<in>set [exReadCall, exEmptyIdCall]. tc_id tc = Some s}"
  proof
    assume "{lit ''call_2''} = {s. \<exists>tc\<in>set [exReadCall, exEmptyIdCall]. tc_id tc = Some s}"
    with m have "[] \<in> {lit ''call_2''}" by (simp only:)
    then show False by simp
  qed
  from a b c d show ?thesis by simp
qed

subsection \<open>Collapsing\<close>

lemma collapse_assistant:
  "isAssistant m \<Longrightarrow>
   collapseConsecutiveAssistantMessages (m # rest)
     = collapseRun (takeWhile isAssistant (m # rest))
       @ collapseConsecutiveAssistantMessages (dropWhile isAssistant rest)"
  by (subst collapseConsecutiveAssistantMessages.simps) simp

lemma collapse_other:
  "\<not> isAssistant m \<Longrightarrow>
   collapseConsecutiveAssistantMessages (m # rest) = m # collapseConsecutiveAssistantMessages rest"
  by (subst collapseConsecutiveAssistantMessages.simps) simp

lemma collapseRun_assistants: "m \<in> set (collapseRun run) \<Longrightarrow> isAssistant m"
  by (auto simp: collapseRun_def Let_def split: if_splits)

lemma filter_dropWhile_assistants:
  "(\<And>m. P m \<Longrightarrow> \<not> isAssistant m) \<Longrightarrow> filter P (dropWhile isAssistant ms) = filter P ms"
  by (induction ms) auto

lemma filter_collapse:
  assumes "\<And>m. P m \<Longrightarrow> \<not> isAssistant m"
  shows "filter P (collapseConsecutiveAssistantMessages ms) = filter P ms"
proof (induction ms rule: collapseConsecutiveAssistantMessages.induct)
  case 1 show ?case by simp
next
  case (2 m rest)
  show ?case
  proof (cases "isAssistant m")
    case True
    have "filter P (collapseRun (takeWhile isAssistant (m # rest))) = []"
      using assms collapseRun_assistants by (auto simp: filter_empty_conv)
    moreover have "\<not> P m" using True assms by auto
    ultimately show ?thesis
      using True 2(1)[OF True] filter_dropWhile_assistants[of P rest, OF assms]
      by (simp add: collapse_assistant)
  next
    case False
    then show ?thesis using 2(2) by (simp add: collapse_other)
  qed
qed







subsection \<open>Rebuilding\<close>

lemma rebuildFrom_users:
  "filter isUser (rebuildFrom J conv moved st i ms)
     = map snd (filter (\<lambda>(k, m). case m of
                           User c \<Rightarrow> \<not> isPleaseContinue c \<or> (Suc k = length conv \<and> keepLastToolSequence st)
                         | _ \<Rightarrow> False)
                  (enumerate i ms))"
proof (induction ms arbitrary: i)
  case Nil show ?case by simp
next
  case (Cons m ms)
  have "int i = int (length conv) - 1 \<longleftrightarrow> Suc i = length conv" by auto
  then show ?case using Cons[of "Suc i"]
    by (cases m) (auto simp: rebuildMessage_def Let_def split: ToolCallsField.splits Content.splits)
qed


lemma trim_decomposition:
  "\<exists>a b. s = a @ trim s @ b \<and> list_all isWhiteSpace a \<and> list_all isWhiteSpace b"
proof -
  let ?u = "dropWhile isWhiteSpace s"
  have "rev (dropWhile isWhiteSpace (rev ?u)) @ rev (takeWhile isWhiteSpace (rev ?u))
          = rev (takeWhile isWhiteSpace (rev ?u) @ dropWhile isWhiteSpace (rev ?u))"
    by (simp only: rev_append)
  also have "\<dots> = ?u" by (simp only: takeWhile_dropWhile_id rev_rev_ident)
  finally have u: "?u = trim s @ rev (takeWhile isWhiteSpace (rev ?u))"
    by (simp only: trim_def)
  have s: "s = takeWhile isWhiteSpace s @ ?u" by simp
  have a: "list_all isWhiteSpace (takeWhile isWhiteSpace s)"
    by (simp add: list_all_iff) (meson set_takeWhileD)
  have b: "list_all isWhiteSpace (rev (takeWhile isWhiteSpace (rev ?u)))"
    by (simp add: list_all_iff) (meson set_takeWhileD)
  from s u have "s = takeWhile isWhiteSpace s @ trim s @ rev (takeWhile isWhiteSpace (rev ?u))"
    by simp
  with a b show ?thesis by blast
qed

lemma dropWhile_padded:
  "list_all P a \<Longrightarrow> t \<noteq> [] \<Longrightarrow> \<not> P (hd t) \<Longrightarrow> dropWhile P (a @ t @ b) = t @ b"
  by (induction a) (auto simp: neq_Nil_conv)

lemma trim_padded:
  assumes "list_all isWhiteSpace a" "list_all isWhiteSpace b"
      and "t \<noteq> []" "\<not> isWhiteSpace (hd t)" "\<not> isWhiteSpace (last t)"
  shows "trim (a @ t @ b) = t"
proof -
  have 1: "dropWhile isWhiteSpace (a @ t @ b) = t @ b"
    using assms(1,3,4) by (rule dropWhile_padded)
  have 2: "dropWhile isWhiteSpace (rev b @ rev t @ []) = rev t @ []"
    using assms(2,3,5) by (intro dropWhile_padded) (simp_all add: hd_rev)
  show ?thesis unfolding trim_def 1 using 2 by simp
qed

lemma isPleaseContinue_padded:
  "isPleaseContinue (Text s)
     = (\<exists>a b. s = a @ lit ''Please continue.'' @ b
              \<and> list_all isWhiteSpace a \<and> list_all isWhiteSpace b)"
proof
  assume "isPleaseContinue (Text s)"
  then have "trim s = lit ''Please continue.''" by simp
  with trim_decomposition[of s] show "\<exists>a b. s = a @ lit ''Please continue.'' @ b
              \<and> list_all isWhiteSpace a \<and> list_all isWhiteSpace b"
    by simp
next
  assume "\<exists>a b. s = a @ lit ''Please continue.'' @ b
              \<and> list_all isWhiteSpace a \<and> list_all isWhiteSpace b"
  then obtain a b where s: "s = a @ lit ''Please continue.'' @ b"
    and a: "list_all isWhiteSpace a" and b: "list_all isWhiteSpace b"
    by blast
  have "trim (a @ lit ''Please continue.'' @ b) = lit ''Please continue.''"
    using a b by (rule trim_padded) (simp_all add: lit_def isWhiteSpace_def)
  then show "isPleaseContinue (Text s)" by (simp add: s)
qed

text \<open>
  Claim C7. The user messages of the rebuilt list are, in order, the user messages of the
  real conversation that pass the test of the rebuilder: a user message whose trimmed
  content is \<^verbatim>\<open>Please continue.\<close> is in the output if and only if it stands at the last
  index of the real conversation and \<^verbatim>\<open>keepLastToolSequence\<close> of the analyzed strategy is
  true, and every other user message is passed through. The statement is by position, so
  an equal message at another index does not count. The trimmed content of a string is
  \<^verbatim>\<open>Please continue.\<close> exactly when the string is that text between two runs, possibly
  empty, of the white space and line terminators of ECMAScript.
\<close>

theorem please_continue_only_last:
  "filter isUser (buildNewMessagesArray J env d orc)
     = map snd (filter (\<lambda>(i, m). case m of
                           User c \<Rightarrow> \<not> isPleaseContinue c
                                      \<or> (Suc i = length (realConversation d)
                                          \<and> keepLastToolSequence (analyzeToolCallStrategy orc))
                         | _ \<Rightarrow> False)
                  (enumerate 0 (realConversation d)))
   \<and> (\<forall>s. isPleaseContinue (Text s)
            = (\<exists>a b. s = a @ lit ''Please continue.'' @ b
                     \<and> list_all isWhiteSpace a \<and> list_all isWhiteSpace b))
   \<and> (\<forall>c. isWhiteSpace c
            = (c \<in> {0x09, 0x0A, 0x0B, 0x0C, 0x0D, 0x20, 0xA0, 0x1680, 0x2028, 0x2029, 0x202F,
                     0x205F, 0x3000, 0xFEFF}
               \<or> (0x2000 \<le> c \<and> c \<le> 0x200A)))"
proof -
  have "filter isUser (buildNewMessagesArray J env d orc)
        = filter isUser (rebuildFrom J (realConversation d) (movedIds d) (analyzeToolCallStrategy orc) 0 (realConversation d))"
    unfolding buildNewMessagesArray_def Let_def
    by (subst filter_collapse) (auto elim: isUser.elims)
  then have "filter isUser (buildNewMessagesArray J env d orc)
     = map snd (filter (\<lambda>(i, m). case m of
                           User c \<Rightarrow> \<not> isPleaseContinue c
                                      \<or> (Suc i = length (realConversation d)
                                          \<and> keepLastToolSequence (analyzeToolCallStrategy orc))
                         | _ \<Rightarrow> False)
                  (enumerate 0 (realConversation d)))"
    by (simp add: rebuildFrom_users)
  moreover have "\<forall>c. isWhiteSpace c
            = (c \<in> {0x09, 0x0A, 0x0B, 0x0C, 0x0D, 0x20, 0xA0, 0x1680, 0x2028, 0x2029, 0x202F,
                     0x205F, 0x3000, 0xFEFF}
               \<or> (0x2000 \<le> c \<and> c \<le> 0x200A))"
    by (simp add: isWhiteSpace_def)
  ultimately show ?thesis using isPleaseContinue_padded by blast
qed

theorem please_continue_only_last_witness:
  "filter isUser (buildNewMessagesArray exJSON exEnv exContinueDeconstructed exContinueConversation)
     = [User (Text (lit ''fix the bug'')),
        User (Text (lit ''Please  continue.'')),
        User (Text ([0x09, 0x3000] @ lit ''Please continue.'' @ [0x0A]))]"
proof -
  have e: "map snd (filter (\<lambda>(i, m). case m of
                           User c \<Rightarrow> \<not> isPleaseContinue c
                                      \<or> (Suc i = length (realConversation exContinueDeconstructed)
                                          \<and> keepLastToolSequence (analyzeToolCallStrategy exContinueConversation))
                         | _ \<Rightarrow> False)
                  (enumerate 0 (realConversation exContinueDeconstructed)))
           = [User (Text (lit ''fix the bug'')),
              User (Text (lit ''Please  continue.'')),
              User (Text ([0x09, 0x3000] @ lit ''Please continue.'' @ [0x0A]))]"
    by code_simp
  note t = please_continue_only_last[of exJSON exEnv exContinueDeconstructed exContinueConversation,
             THEN conjunct1]
  show ?thesis using t unfolding e .
qed

lemma rebuildFrom_no_system: "filter isSystem (rebuildFrom J conv moved st i ms) = []"
proof (induction ms arbitrary: i)
  case Nil show ?case by simp
next
  case (Cons m ms)
  then show ?case
    by (cases m) (auto simp: rebuildMessage_def Let_def split: ToolCallsField.splits Content.splits)
qed

lemma build_single_system:
  "\<exists>rest. buildNewMessagesArray J env d orc
      = System (Text (buildContextStuffedSystemPrompt J env (toolCallPairs d) (cannedUserContext d) (virtualFileSystem d))) # rest
    \<and> filter isSystem rest = []"
proof -
  let ?r = "rebuildFrom J (realConversation d) (movedIds d) (analyzeToolCallStrategy orc) 0 (realConversation d)"
  have "filter isSystem (collapseConsecutiveAssistantMessages ?r) = filter isSystem ?r"
    by (rule filter_collapse) (auto elim: isSystem.elims)
  then show ?thesis
    unfolding buildNewMessagesArray_def Let_def by (simp add: rebuildFrom_no_system collapse_other)
qed



subsection \<open>Tool linkage\<close>



lemma idsOf_simps [simp]:
  "idsOf (System c) = {}" "idsOf (User c) = {}" "idsOf (Tool c t) = {}"
  "idsOf (Assistant c Absent) = {}" "idsOf (Assistant c Undefined) = {}"
  "idsOf (Assistant c (Calls tcs)) = {t. \<exists>tc\<in>set tcs. tc_id tc = Some t}"
  by (auto simp: idsOf_def ownsToolCall_def list_ex_iff)









subsection \<open>Deconstruction\<close>






















lemma reconfigure_Inr:
  "reconfigureFinalMessages J dsk env input = Inr out \<longleftrightarrow>
   (\<exists>d. deconstructMessages J dsk input = Inr d \<and> out = buildNewMessagesArray J env d (realConversation d))"
  by (auto simp: reconfigureFinalMessages_def split: sum.splits)








lemma filter_split_length:
  "length (filter P (filter A xs)) + length (filter P (filter (\<lambda>x. \<not> A x) xs)) = length (filter P xs)"
  by (induction xs) auto

lemma objectEntries_count:
  "length (filter P (objectEntries obj)) = length (filter P obj)"
proof -
  let ?A = "\<lambda>entry. arrayIndex (fst entry) \<noteq> None"
  have "length (filter P (sort_key indexOrder (filter ?A obj))) = length (filter P (filter ?A obj))"
    by (simp add: filter_sort)
  then show ?thesis
    using filter_split_length[of P ?A obj] by (simp add: objectEntries_def)
qed

lemma objectEntries_length: "length (objectEntries obj) = length obj"
  using objectEntries_count[of "\<lambda>x. True" obj] by simp




subsection \<open>The entry point\<close>

text \<open>
  Whenever \<^verbatim>\<open>reconfigureFinalMessages\<close> returns a list, the list starts with the composed
  system message and holds no other system message.
\<close>

lemma reconfigure_single_system:
  assumes "reconfigureFinalMessages J dsk env input = Inr out"
  shows "out \<noteq> [] \<and> isSystem (hd out) \<and> length (filter isSystem out) = 1"
proof -
  from assms obtain d where "out = buildNewMessagesArray J env d (realConversation d)"
    by (auto simp: reconfigure_Inr)
  with build_single_system[of J env d "realConversation d"] show ?thesis by auto
qed


text \<open>
  Claim C2 does not hold of the code for every input. The classifier reads a property of
  the decoded arguments outside its \<^verbatim>\<open>try\<close> block, so for a completed \<^verbatim>\<open>read_file\<close> call
  whose arguments are the JSON text \<^verbatim>\<open>null\<close> a \<^verbatim>\<open>TypeError\<close> leaves
  \<^verbatim>\<open>reconfigureFinalMessages\<close> and no list is returned.
\<close>

theorem reconfigure_null_arguments_throw:
  "reconfigureFinalMessages exJSON exDisk exEnv exNullInput = Inl TypeError"
  by code_simp












end
